theory Spec2Isabelle
  imports Complex_Main "HOL-Library.Log_Nat"
begin

section \<open>Numbers, strings and results shared by both tools\<close>

text \<open>
  Python floats are modelled twice. In the validator and in the first model of the
  calculator they are exact real numbers: the arithmetic is exact, so the rounding error
  of each float operation, the infinities and NaN are outside that model. The second
  model of the calculator has them as IEEE 754 doubles, with the rounding of every
  operation, the infinities and NaN. Python ints are \<^typ>\<open>int\<close>.
  The string arguments typed \<^verbatim>\<open>Literal[...]\<close> are plain strings, as at run time:
  the comparisons of the source decide what an unknown value does.
\<close>

text \<open>
  An f-string that interpolates a number is kept as its pieces, so that the text
  Python prints for a float (\<^verbatim>\<open>{x:.0f}\<close>, \<^verbatim>\<open>{x:.1f}\<close>, \<^verbatim>\<open>{x}\<close>) is not re-implemented.
\<close>

datatype piece =
    Lit string
  | FloatFmt nat real
  | FloatStr real
  | IntStr int

type_synonym fstring = "piece list"

text \<open>The exceptions the modelled code can raise.\<close>

datatype py_error = KeyError string | ZeroDivisionError | OverflowError

text \<open>\<^verbatim>\<open>str(e)\<close> of a caught exception; the key of a KeyError is shown in quotes.\<close>

fun str_exc :: "py_error \<Rightarrow> string" where
  "str_exc (KeyError k) = [CHR 0x27] @ k @ [CHR 0x27]"
| "str_exc ZeroDivisionError = ''float division by zero''"
| "str_exc OverflowError = ''int too large to convert to float''"

text \<open>
  A tool's dictionary \<^verbatim>\<open>{"status": "error", "error_message": m}\<close> is \<open>Err m\<close>, and
  its \<^verbatim>\<open>{"status": "success", ...}\<close> dictionary is \<open>Ok\<close> of the record of the other keys.
\<close>

datatype 'a tool_result = Err string | Ok 'a


text \<open>
  \<^verbatim>\<open>round(x, 1)\<close>: to one decimal place, a tie going to the even last digit.
\<close>

definition round_half_even :: "real \<Rightarrow> int" where
  "round_half_even y =
     (let f = \<lfloor>y\<rfloor>; d = y - of_int f
      in if d < 1 / 2 then f
         else if 1 / 2 < d then f + 1
         else if even f then f else f + 1)"

definition py_round1 :: "real \<Rightarrow> real" where
  "py_round1 x = of_int (round_half_even (x * 10)) / 10"

section \<open>The consistency validator (src/tools/validation\_tool.py)\<close>

subsection \<open>Strings\<close>

text \<open>
  \<^verbatim>\<open>str.lower\<close> on the letters A to Z; the other characters of a byte string are
  left as they are.
\<close>

definition lower_char :: "char \<Rightarrow> char" where
  "lower_char c =
     (case map_of (zip ''ABCDEFGHIJKLMNOPQRSTUVWXYZ'' ''abcdefghijklmnopqrstuvwxyz'') c of
        None \<Rightarrow> c
      | Some l \<Rightarrow> l)"

definition lower :: "string \<Rightarrow> string" where
  "lower s = map lower_char s"

text \<open>\<^verbatim>\<open>needle in hay\<close> on strings: \<open>needle\<close> occurs in \<open>hay\<close> as a contiguous piece.\<close>

fun starts_with :: "string \<Rightarrow> string \<Rightarrow> bool" where
  "starts_with hay [] = True"
| "starts_with [] (c # needle) = False"
| "starts_with (h # hay) (c # needle) = (h = c \<and> starts_with hay needle)"

fun str_in :: "string \<Rightarrow> string \<Rightarrow> bool" where
  "str_in needle [] = (needle = [])"
| "str_in needle (h # hay) = (starts_with (h # hay) needle \<or> str_in needle hay)"

text \<open>\<^verbatim>\<open>sep.join(xs)\<close>.\<close>

fun join :: "'a list \<Rightarrow> 'a list list \<Rightarrow> 'a list" where
  "join sep [] = []"
| "join sep [x] = x"
| "join sep (x # y # ys) = x @ sep @ join sep (y # ys)"

text \<open>Lines 70 to 74: the keyword lists.\<close>

definition MEAT_FOODS :: "string list" where
  "MEAT_FOODS = [''beef'', ''pork'', ''chicken'', ''turkey'', ''lamb'', ''duck'', ''venison'', ''meat'']"

definition ANIMAL_PRODUCTS :: "string list" where
  "ANIMAL_PRODUCTS =
     MEAT_FOODS @ [''eggs'', ''dairy'', ''milk'', ''cheese'', ''yogurt'', ''butter'', ''honey'']"

definition SEAFOOD :: "string list" where
  "SEAFOOD = [''fish'', ''salmon'', ''tuna'', ''shrimp'', ''shellfish'', ''lobster'', ''crab'', ''seafood'']"

definition GLUTEN_FOODS :: "string list" where
  "GLUTEN_FOODS = [''wheat'', ''bread'', ''pasta'', ''flour'', ''barley'', ''rye'', ''gluten'']"

definition DAIRY_FOODS :: "string list" where
  "DAIRY_FOODS = [''milk'', ''cheese'', ''yogurt'', ''butter'', ''cream'', ''dairy'']"

text \<open>
  \<^verbatim>\<open>[f for f in favorite_foods if any(k in f for k in KEYWORDS)]\<close>, the comprehension
  of lines 87, 97, 104, 119 and 130.
\<close>

definition matching :: "string list \<Rightarrow> string list \<Rightarrow> string list" where
  "matching keywords favorite_foods =
     filter (\<lambda>f. list_ex (\<lambda>k. str_in k f) keywords) favorite_foods"

subsection \<open>Findings\<close>

record finding =
  "type" :: string
  severity :: string
  issue :: fstring
  resolution :: fstring

text \<open>The three lists of lines 65 to 67, threaded through the checks.\<close>

record found =
  errs :: "finding list"
  warns :: "finding list"
  suggs :: "string list"

definition add_error :: "finding \<Rightarrow> found \<Rightarrow> found" where
  "add_error e a = a\<lparr>errs := errs a @ [e]\<rparr>"

definition add_warning :: "finding \<Rightarrow> found \<Rightarrow> found" where
  "add_warning w a = a\<lparr>warns := warns a @ [w]\<rparr>"

definition add_suggestion :: "string \<Rightarrow> found \<Rightarrow> found" where
  "add_suggestion s a = a\<lparr>suggs := suggs a @ [s]\<rparr>"

text \<open>
  A number used as a condition: \<^verbatim>\<open>None\<close> and zero are both false. \<open>nonzero\<close> gives
  the value of a number that counts as true.
\<close>

fun nonzero :: "real option \<Rightarrow> real option" where
  "nonzero None = None"
| "nonzero (Some x) = (if x = 0 then None else Some x)"

text \<open>The float division \<^verbatim>\<open>a / b\<close>, which raises on a zero divisor.\<close>

definition py_truediv :: "real \<Rightarrow> real \<Rightarrow> py_error + real" where
  "py_truediv a b = (if b = 0 then Inl ZeroDivisionError else Inr (a / b))"

subsection \<open>1. Dietary restriction contradictions, lines 85 to 137\<close>

definition check_vegetarian :: "string list \<Rightarrow> string list \<Rightarrow> found \<Rightarrow> found" where
  "check_vegetarian dietary_restrictions favorite_foods a =
     (if ''vegetarian'' \<in> set dietary_restrictions
      then
        let conflicting_favorites = matching MEAT_FOODS favorite_foods;
            a1 = (if conflicting_favorites \<noteq> []
                  then add_error
                         \<lparr> type = ''dietary_contradiction'',
                           severity = ''high'',
                           issue = [Lit (''User is vegetarian but lists meat as favorites: ''
                                         @ join '', '' conflicting_favorites)],
                           resolution = [Lit ''Ask user to clarify: Do you want vegetarian recipes, or would you like to include meat?''] \<rparr> a
                  else a);
            seafood_favorites = matching SEAFOOD favorite_foods
        in if seafood_favorites \<noteq> []
           then add_suggestion
                  (''User likes seafood ('' @ join '', '' seafood_favorites
                   @ '') - consider asking if they'' @ [CHR 0x27]
                   @ ''re pescatarian instead of vegetarian'') a1
           else a1
      else a)"

definition check_vegan :: "string list \<Rightarrow> string list \<Rightarrow> found \<Rightarrow> found" where
  "check_vegan dietary_restrictions favorite_foods a =
     (if ''vegan'' \<in> set dietary_restrictions
      then
        let conflicting_favorites = matching ANIMAL_PRODUCTS favorite_foods;
            a1 = (if conflicting_favorites \<noteq> []
                  then add_error
                         \<lparr> type = ''dietary_contradiction'',
                           severity = ''critical'',
                           issue = [Lit (''User is vegan but lists animal products as favorites: ''
                                         @ join '', '' conflicting_favorites)],
                           resolution = [Lit ''Ask user: Do you want strictly vegan recipes, or are you flexible with some animal products?''] \<rparr> a
                  else a)
        in if ''vegetarian'' \<notin> set dietary_restrictions
           then add_suggestion
                  ''User is vegan - automatically including vegetarian as well since vegan is more restrictive'' a1
           else a1
      else a)"

definition check_gluten_free :: "string list \<Rightarrow> string list \<Rightarrow> found \<Rightarrow> found" where
  "check_gluten_free dietary_restrictions favorite_foods a =
     (if ''gluten_free'' \<in> set dietary_restrictions \<or> ''gluten-free'' \<in> set dietary_restrictions
      then
        let conflicting_favorites = matching GLUTEN_FOODS favorite_foods
        in if conflicting_favorites \<noteq> []
           then add_warning
                  \<lparr> type = ''dietary_warning'',
                    severity = ''medium'',
                    issue = [Lit (''User is gluten-free but lists gluten-containing foods as favorites: ''
                                  @ join '', '' conflicting_favorites)],
                    resolution = [Lit ''Offer gluten-free alternatives to their favorite foods''] \<rparr> a
           else a
      else a)"

definition check_dairy_free :: "string list \<Rightarrow> string list \<Rightarrow> found \<Rightarrow> found" where
  "check_dairy_free dietary_restrictions favorite_foods a =
     (if ''lactose_intolerant'' \<in> set dietary_restrictions \<or> ''dairy_free'' \<in> set dietary_restrictions
      then
        let conflicting_favorites = matching DAIRY_FOODS favorite_foods
        in if conflicting_favorites \<noteq> []
           then add_warning
                  \<lparr> type = ''dietary_warning'',
                    severity = ''medium'',
                    issue = [Lit (''User is lactose intolerant/dairy-free but lists dairy as favorites: ''
                                  @ join '', '' conflicting_favorites)],
                    resolution = [Lit ''Suggest lactose-free or dairy-free alternatives''] \<rparr> a
           else a
      else a)"

subsection \<open>2. Macro target validity, lines 143 to 186\<close>

text \<open>Lines 151 to 158: the macro calories against the calorie target.\<close>

definition check_macro_mismatch :: "real \<Rightarrow> real \<Rightarrow> real \<Rightarrow> real \<Rightarrow> found \<Rightarrow> found" where
  "check_macro_mismatch target_calories target_protein_g target_fat_g target_carbs_g a =
     (let p_cal = target_protein_g * 4;
          f_cal = target_fat_g * 9;
          c_cal = target_carbs_g * 4;
          total_macro_cal = p_cal + f_cal + c_cal;
          calorie_difference = \<bar>total_macro_cal - target_calories\<bar>
      in if calorie_difference > target_calories * (10 / 100)
         then add_error
                \<lparr> type = ''macro_mismatch'',
                  severity = ''high'',
                  issue = [Lit ''Macro calories ('', FloatFmt 0 total_macro_cal,
                           Lit '') don'' , Lit [CHR 0x27], Lit ''t match target calories ('',
                           FloatFmt 0 target_calories, Lit '')''],
                  resolution = [Lit ''Adjust macros to match calorie target. Difference: '',
                                FloatFmt 0 calorie_difference, Lit '' calories''] \<rparr> a
         else a)"

text \<open>Lines 163 to 176: the protein per kilogram against 0.8 and 3.0.\<close>

definition check_protein_range :: "real \<Rightarrow> found \<Rightarrow> found" where
  "check_protein_range per_kg a =
     (if per_kg < 8 / 10
      then add_warning
             \<lparr> type = ''low_protein'',
               severity = ''medium'',
               issue = [Lit ''Protein target is very low ('', FloatFmt 1 per_kg,
                        Lit ''g/kg). Minimum recommended: 0.8g/kg''],
               resolution = [Lit ''Consider increasing protein to at least 0.8g per kg body weight''] \<rparr> a
      else if per_kg > 3
      then add_warning
             \<lparr> type = ''high_protein'',
               severity = ''medium'',
               issue = [Lit ''Protein target is very high ('', FloatFmt 1 per_kg,
                        Lit ''g/kg). Typical range: 1.6-2.5g/kg''],
               resolution = [Lit ''Verify this protein level is intentional and safe for the user''] \<rparr> a
      else a)"

text \<open>Lines 179 to 186: a high protein target on a vegan or vegetarian diet.\<close>

definition check_difficult_target :: "string list \<Rightarrow> real \<Rightarrow> found \<Rightarrow> found" where
  "check_difficult_target dietary_restrictions target_protein_g a =
     (if ''vegan'' \<in> set dietary_restrictions \<or> ''vegetarian'' \<in> set dietary_restrictions
      then if target_protein_g > 150
           then add_warning
                  \<lparr> type = ''difficult_target'',
                    severity = ''medium'',
                    issue = [Lit ''Very high protein target ('', FloatStr target_protein_g,
                             Lit ''g) with vegan/vegetarian diet may be challenging''],
                    resolution = [Lit ''May need protein supplements or extensive legume/tofu consumption''] \<rparr> a
           else a
      else a)"

text \<open>
  The block of line 143. Its three checks run only when the four targets all count as
  true; the division of line 162 is inside \<^verbatim>\<open>if weight_kg:\<close>, and an exception
  leaves the function, which has no handler.
\<close>

definition check_macro_targets ::
  "string list \<Rightarrow> real option \<Rightarrow> real option \<Rightarrow> real option \<Rightarrow> real option \<Rightarrow> real option
     \<Rightarrow> found \<Rightarrow> py_error + found" where
  "check_macro_targets dietary_restrictions target_calories target_protein_g target_fat_g
       target_carbs_g weight_kg a =
     (case (nonzero target_calories, nonzero target_protein_g, nonzero target_fat_g,
            nonzero target_carbs_g) of
        (Some cal, Some p, Some f, Some c) \<Rightarrow>
          let a1 = check_macro_mismatch cal p f c a
          in (case nonzero weight_kg of
                None \<Rightarrow> Inr (check_difficult_target dietary_restrictions p a1)
              | Some w \<Rightarrow>
                  (case py_truediv p w of
                     Inl e \<Rightarrow> Inl e
                   | Inr per_kg \<Rightarrow>
                       Inr (check_difficult_target dietary_restrictions p
                              (check_protein_range per_kg a1))))
      | _ \<Rightarrow> Inr a)"

subsection \<open>3. Goal consistency, lines 192 to 210\<close>

definition check_goal :: "string option \<Rightarrow> real option \<Rightarrow> real option \<Rightarrow> found \<Rightarrow> found" where
  "check_goal goal target_calories weight_kg a =
     (case (goal, nonzero target_calories, nonzero weight_kg) of
        (Some g, Some cal, Some w) \<Rightarrow>
          if g = [] then a
          else if g = ''weight_loss''
          then if cal > w * 30
               then add_warning
                      \<lparr> type = ''goal_mismatch'',
                        severity = ''low'',
                        issue = [Lit ''Weight loss goal but calories ('', FloatStr cal,
                                 Lit '') seem high for weight ('', FloatStr w, Lit ''kg)''],
                        resolution = [Lit ''Verify the calorie target matches the weight loss goal''] \<rparr> a
               else a
          else if g = ''muscle_gain''
          then if cal < w * 25
               then add_warning
                      \<lparr> type = ''goal_mismatch'',
                        severity = ''low'',
                        issue = [Lit ''Muscle gain goal but calories ('', FloatStr cal,
                                 Lit '') may be too low''],
                        resolution = [Lit ''Consider increasing calories for muscle growth''] \<rparr> a
               else a
          else a
      | _ \<Rightarrow> a)"

subsection \<open>4. Conflicting restrictions, lines 217 to 234\<close>

definition check_counts :: "string list \<Rightarrow> string list \<Rightarrow> found \<Rightarrow> found" where
  "check_counts dietary_restrictions foods_to_avoid a =
     (let restriction_count = length dietary_restrictions;
          avoid_count = length foods_to_avoid;
          a1 = (if restriction_count \<ge> 4
                then add_warning
                       \<lparr> type = ''too_restrictive'',
                         severity = ''medium'',
                         issue = [Lit ''User has many dietary restrictions ('',
                                  IntStr (int restriction_count),
                                  Lit '') which may limit recipe variety''],
                         resolution = [Lit ''Consider prioritizing the most important restrictions if recipe options are limited''] \<rparr> a
                else a)
      in if avoid_count \<ge> 10
         then add_warning
                \<lparr> type = ''too_many_avoided_foods'',
                  severity = ''medium'',
                  issue = [Lit ''User avoids many foods ('', IntStr (int avoid_count),
                           Lit '') which may make meal planning difficult''],
                  resolution = [Lit ''Focus on core allergens/dislikes; consider if all are strictly necessary''] \<rparr> a1
         else a1)"

subsection \<open>Compiling the result, lines 240 to 282\<close>

text \<open>
  The returned dictionary. A key that a path does not set is \<open>None\<close>; \<open>status\<close>,
  \<open>valid\<close> and \<open>message\<close> are set on every path.
\<close>

record validation_result =
  status :: string
  valid :: bool
  errors :: "finding list option"
  error_count :: "nat option"
  suggested_resolution :: "fstring option"
  warnings :: "finding list option"
  warning_count :: "nat option"
  suggestions :: "string list option"
  message :: fstring

definition compile_results :: "found \<Rightarrow> validation_result" where
  "compile_results a =
     (if errs a \<noteq> []
      then
        let error_messages = map issue (errs a);
            resolutions = map resolution (errs a)
        in \<lparr> status = ''error'',
             valid = False,
             errors = Some (errs a),
             error_count = Some (length (errs a)),
             suggested_resolution = Some (join [Lit '' OR ''] (take 2 resolutions)),
             warnings = None,
             warning_count = None,
             suggestions = None,
             message = [Lit ''Found '', IntStr (int (length (errs a))),
                        Lit '' critical contradiction(s): '']
                       @ join [Lit ''; ''] (take 2 error_messages) \<rparr>
      else if warns a \<noteq> []
      then \<lparr> status = ''warning'',
             valid = True,
             errors = None,
             error_count = None,
             suggested_resolution = None,
             warnings = Some (warns a),
             warning_count = Some (length (warns a)),
             suggestions = (if suggs a \<noteq> [] then Some (suggs a) else None),
             message = [Lit ''Found '', IntStr (int (length (warns a))),
                        Lit '' potential issue(s) that should be reviewed''] \<rparr>
      else \<lparr> status = ''success'',
             valid = True,
             errors = None,
             error_count = None,
             suggested_resolution = None,
             warnings = None,
             warning_count = None,
             suggestions = (if suggs a \<noteq> [] then Some (suggs a) else None),
             message = [Lit ''All data is consistent - no contradictions found''] \<rparr>)"

subsection \<open>The tool\<close>

text \<open>\<^verbatim>\<open>[s.lower() for s in (xs or [])]\<close>, lines 76 to 78.\<close>

definition lowered :: "string list option \<Rightarrow> string list" where
  "lowered xs = map lower (case xs of None \<Rightarrow> [] | Some l \<Rightarrow> l)"

text \<open>Lines 65 to 234: the findings of a call, or the exception that ended it.\<close>

definition collect_findings ::
  "string list option \<Rightarrow> string list option \<Rightarrow> string list option
     \<Rightarrow> real option \<Rightarrow> real option \<Rightarrow> real option \<Rightarrow> real option \<Rightarrow> real option
     \<Rightarrow> string option \<Rightarrow> py_error + found" where
  "collect_findings dietary_restrictions foods_to_avoid favorite_foods target_calories
       target_protein_g target_fat_g target_carbs_g weight_kg goal =
     (let dr = lowered dietary_restrictions;
          fa = lowered foods_to_avoid;
          ff = lowered favorite_foods;
          a0 = \<lparr> errs = [], warns = [], suggs = [] \<rparr>;
          a1 = check_dairy_free dr ff (check_gluten_free dr ff
                 (check_vegan dr ff (check_vegetarian dr ff a0)))
      in case check_macro_targets dr target_calories target_protein_g target_fat_g
                target_carbs_g weight_kg a1 of
           Inl e \<Rightarrow> Inl e
         | Inr a2 \<Rightarrow> Inr (check_counts dr fa (check_goal goal target_calories weight_kg a2)))"

text \<open>\<^verbatim>\<open>validate_consultation_data\<close>, lines 16 to 282.\<close>

definition validate_consultation_data ::
  "string list option \<Rightarrow> string list option \<Rightarrow> string list option
     \<Rightarrow> real option \<Rightarrow> real option \<Rightarrow> real option \<Rightarrow> real option \<Rightarrow> real option
     \<Rightarrow> string option \<Rightarrow> py_error + validation_result" where
  "validate_consultation_data dietary_restrictions foods_to_avoid favorite_foods
       target_calories target_protein_g target_fat_g target_carbs_g weight_kg goal =
     (case collect_findings dietary_restrictions foods_to_avoid favorite_foods target_calories
             target_protein_g target_fat_g target_carbs_g weight_kg goal of
        Inl e \<Rightarrow> Inl e
      | Inr a \<Rightarrow> Inr (compile_results a))"

section \<open>The KBJU calculator (src/tools/kbju\_calculator.py)\<close>

text \<open>\<^verbatim>\<open>calculate_bmr\<close>, lines 18 to 43.\<close>

definition calculate_bmr :: "real \<Rightarrow> real \<Rightarrow> int \<Rightarrow> string \<Rightarrow> real" where
  "calculate_bmr weight_kg height_cm age gender =
     (if gender = ''male''
      then (10 * weight_kg) + (25 / 4 * height_cm) - (5 * of_int age) + 5
      else (10 * weight_kg) + (25 / 4 * height_cm) - (5 * of_int age) - 161)"

text \<open>
  The Mifflin-St Jeor formula in the words of the specification:
  \<^verbatim>\<open>10*weight_kg + 6.25*height_cm - 5*age + (5 if male else -161)\<close>.
\<close>

definition mifflin_st_jeor :: "real \<Rightarrow> real \<Rightarrow> int \<Rightarrow> bool \<Rightarrow> real" where
  "mifflin_st_jeor weight_kg height_cm age male =
     10 * weight_kg + 25 / 4 * height_cm - 5 * of_int age + (if male then 5 else - 161)"

text \<open>\<^verbatim>\<open>get_activity_multiplier\<close>, lines 46 to 71: a dictionary with default 1.2.\<close>

definition multipliers :: "(string \<times> real) list" where
  "multipliers =
     [(''sedentary'', 12 / 10),
      (''lightly_active'', 1375 / 1000),
      (''moderately_active'', 155 / 100),
      (''very_active'', 1725 / 1000),
      (''extremely_active'', 19 / 10)]"

definition get_activity_multiplier :: "string \<Rightarrow> real" where
  "get_activity_multiplier activity_level =
     (case map_of multipliers activity_level of None \<Rightarrow> 12 / 10 | Some m \<Rightarrow> m)"

text \<open>The table \<^verbatim>\<open>goal_adjustments\<close>, lines 146 to 167, and its lookup on line 169.\<close>

definition goal_adjustments :: "(string \<times> (string \<times> int) list) list" where
  "goal_adjustments =
     [(''weight_loss'', [(''slow'', - 250), (''moderate'', - 500), (''aggressive'', - 750)]),
      (''maintenance'', [(''slow'', 0), (''moderate'', 0), (''aggressive'', 0)]),
      (''muscle_gain'', [(''slow'', 200), (''moderate'', 350), (''aggressive'', 500)]),
      (''recomp'', [(''slow'', 0), (''moderate'', 0), (''aggressive'', 0)])]"

definition goal_adjustment :: "string \<Rightarrow> string \<Rightarrow> py_error + int" where
  "goal_adjustment goal goal_rate =
     (case map_of goal_adjustments goal of
        None \<Rightarrow> Inl (KeyError goal)
      | Some rates \<Rightarrow>
          (case map_of rates goal_rate of
             None \<Rightarrow> Inl (KeyError goal_rate)
           | Some a \<Rightarrow> Inr a))"

text \<open>The dictionary \<^verbatim>\<open>calculate_macro_distribution\<close> returns on success.\<close>

record macros =
  protein_g :: real
  fat_g :: real
  carbs_g :: real
  protein_cal :: real
  fat_cal :: real
  carbs_cal :: real
  protein_percent :: real
  fat_percent :: real
  carbs_percent :: real

text \<open>Lines 243 to 252: grams of protein per kilogram of body weight.\<close>

definition protein_per_kg :: "string \<Rightarrow> string \<Rightarrow> real" where
  "protein_per_kg goal activity_level =
     (let per_kg =
        (if goal = ''muscle_gain'' then 22 / 10
         else if goal \<in> set [''recomp'', ''weight_loss''] then 2
         else 18 / 10)
      in if activity_level \<in> set [''very_active'', ''extremely_active'']
         then per_kg + 2 / 10 else per_kg)"

text \<open>Lines 259 to 265: the share of the calories given to fat.\<close>

definition fat_share :: "string \<Rightarrow> real" where
  "fat_share goal =
     (if goal = ''weight_loss'' then 25 / 100
      else if goal = ''muscle_gain'' then 25 / 100
      else 30 / 100)"

text \<open>
  Lines 267 to 274: the fat calories, raised to 0.8 g per kilogram where the share
  gives less. The pair is (\<open>fat_g\<close>, \<open>fat_cal\<close>), unrounded.
\<close>

definition fat_allocation :: "real \<Rightarrow> real \<Rightarrow> string \<Rightarrow> real \<times> real" where
  "fat_allocation target_calories weight_kg goal =
     (let fat_cal0 = target_calories * fat_share goal;
          fat_g0 = fat_cal0 / 9;
          min_fat_g = weight_kg * (8 / 10)
      in if fat_g0 < min_fat_g then (min_fat_g, min_fat_g * 9) else (fat_g0, fat_cal0))"

text \<open>
  \<^verbatim>\<open>calculate_macro_distribution\<close>, lines 220 to 309. The three divisions by
  \<open>target_calories\<close> on lines 288 to 290 raise ZeroDivisionError when it is zero,
  and the handler on line 305 turns the exception into an error dictionary.
\<close>

definition calculate_macro_distribution ::
  "real \<Rightarrow> real \<Rightarrow> string \<Rightarrow> string \<Rightarrow> macros tool_result" where
  "calculate_macro_distribution target_calories weight_kg goal activity_level =
     (let p_g = weight_kg * protein_per_kg goal activity_level;
          p_cal = p_g * 4;
          (f_g, f_cal) = fat_allocation target_calories weight_kg goal;
          c_cal = target_calories - p_cal - f_cal;
          c_g = c_cal / 4
      in if c_g < 0
         then Err ''Unable to fit macros within calorie target. Protein and fat requirements exceed total calories.''
         else if target_calories = 0
         then Err (''Error calculating macro distribution: '' @ str_exc ZeroDivisionError)
         else Ok \<lparr> protein_g = py_round1 p_g,
                   fat_g = py_round1 f_g,
                   carbs_g = py_round1 c_g,
                   protein_cal = py_round1 p_cal,
                   fat_cal = py_round1 f_cal,
                   carbs_cal = py_round1 c_cal,
                   protein_percent = py_round1 ((p_cal / target_calories) * 100),
                   fat_percent = py_round1 ((f_cal / target_calories) * 100),
                   carbs_percent = py_round1 ((c_cal / target_calories) * 100) \<rparr>)"

text \<open>The success dictionary of \<^verbatim>\<open>calculate_kbju\<close>: the macros and four more keys.\<close>

record kbju = macros +
  bmr :: real
  tdee :: real
  target_calories :: real
  "notes" :: fstring

text \<open>The session state: \<^verbatim>\<open>tool_context.state\<close>, a dictionary.\<close>

type_synonym tool_state = "string \<rightharpoonup> kbju"

text \<open>Line 173: the sex-specific minimum.\<close>

definition min_calories :: "string \<Rightarrow> int" where
  "min_calories gender = (if gender = ''female'' then 1200 else 1500)"

text \<open>Lines 170 to 178: the calorie target with its note.\<close>

definition safe_target :: "string \<Rightarrow> string \<Rightarrow> string \<Rightarrow> real \<Rightarrow> int \<Rightarrow> real \<times> fstring" where
  "safe_target gender goal goal_rate tdee_v adjustment =
     (let target = tdee_v + of_int adjustment
      in if target < of_int (min_calories gender)
         then (of_int (min_calories gender),
               [Lit ''Calories adjusted to safe minimum ('', IntStr (min_calories gender),
                Lit '' kcal)''])
         else (target,
               [Lit (''Calculation based on '' @ goal @ '' goal at '' @ goal_rate @ '' rate'')]))"

text \<open>
  \<^verbatim>\<open>calculate_kbju\<close>, lines 74 to 217. It returns the dictionary and the session
  state, which only a success changes (line 209).
\<close>

definition calculate_kbju ::
  "tool_state \<Rightarrow> real \<Rightarrow> real \<Rightarrow> int \<Rightarrow> string \<Rightarrow> string \<Rightarrow> string \<Rightarrow> string
     \<Rightarrow> kbju tool_result \<times> tool_state" where
  "calculate_kbju st weight_kg height_cm age gender activity_level goal goal_rate =
     (if weight_kg \<le> 0 \<or> height_cm \<le> 0 \<or> age \<le> 0
      then (Err ''Weight, height, and age must be positive values'', st)
      else if age < 18
      then (Err ''This calculator is designed for adults 18+. Please consult a pediatric nutritionist.'', st)
      else
        let bmr_v = calculate_bmr weight_kg height_cm age gender;
            tdee_v = bmr_v * get_activity_multiplier activity_level
        in case goal_adjustment goal goal_rate of
             Inl e \<Rightarrow> (Err (''Error calculating KBJU: '' @ str_exc e), st)
           | Inr adjustment \<Rightarrow>
               let (target, note) = safe_target gender goal goal_rate tdee_v adjustment
               in case calculate_macro_distribution target weight_kg goal activity_level of
                    Err m \<Rightarrow> (Err m, st)
                  | Ok m \<Rightarrow>
                      let result = macros.extend m
                            (kbju.fields (py_round1 bmr_v) (py_round1 tdee_v)
                               (py_round1 target) note)
                      in (Ok result, st(''kbju_calculation'' \<mapsto> result)))"

section \<open>The KBJU calculator in double precision\<close>

text \<open>
  The second model of the calculator. A Python float is an IEEE 754 binary64 number: a
  finite value, one of the two infinities, or NaN. The sign of a zero is not kept: no
  operation of the calculator tells the two zeros apart (a division by either raises).
\<close>

datatype pyfloat = Fin real | PInf | NInf | NaN

subsection \<open>Rounding to a double\<close>

text \<open>
  The binary exponent \<open>e\<close> of a non-zero real \<open>x\<close>, with \<open>2^e \<le> |x| < 2^(e+1)\<close>, read
  off the bit length of the integer part of \<open>|x|\<close> or of \<open>1/|x|\<close>.
\<close>

definition exponent :: "real \<Rightarrow> int" where
  "exponent x =
     (if 1 \<le> \<bar>x\<bar> then bitlen \<lfloor>\<bar>x\<bar>\<rfloor> - 1 else - bitlen (\<lceil>1 / \<bar>x\<bar>\<rceil> - 1))"

text \<open>
  The spacing of the doubles around \<open>x\<close>: 53 significant bits, and the fixed spacing
  \<open>2^-1074\<close> of the subnormal range below \<open>2^-1022\<close>.
\<close>

definition ulp :: "real \<Rightarrow> real" where
  "ulp x = 2 powi (max (exponent x) (- 1022) - 52)"

text \<open>
  Rounding to the nearest multiple of the spacing, a tie going to the even multiple
  (the default rounding mode), with the exponent unbounded above.
\<close>

definition round_double :: "real \<Rightarrow> real" where
  "round_double x = sgn x * (of_int (round_half_even (\<bar>x\<bar> / ulp x)) * ulp x)"

text \<open>The finite doubles.\<close>

definition is_double :: "real \<Rightarrow> bool" where
  "is_double x \<longleftrightarrow> round_double x = x \<and> \<bar>x\<bar> < 2 ^ 1024"

text \<open>
  The float of an exact result: rounded, and an infinity where the rounded value is
  beyond the largest double. A float literal such as \<^verbatim>\<open>1.2\<close> is the float of its
  decimal value.
\<close>

definition to_float :: "real \<Rightarrow> pyfloat" where
  "to_float x =
     (let y = round_double x
      in if 2 ^ 1024 \<le> y then PInf else if y \<le> - (2 ^ 1024) then NInf else Fin y)"

text \<open>
  An int operand of a float operation is converted first; the conversion rounds in the
  same way and raises OverflowError where the int is too large. The int constants of the
  source (10, 5, 161, 4, 9, 100, 0, the goal adjustments and the minimum calories) are
  doubles, so they are written \<open>Fin n\<close> directly.
\<close>

definition float_of_int :: "int \<Rightarrow> py_error + pyfloat" where
  "float_of_int n =
     (case to_float (of_int n) of
        Fin y \<Rightarrow> Inr (Fin y)
      | _ \<Rightarrow> Inl OverflowError)"

subsection \<open>Float operations\<close>

text \<open>\<^verbatim>\<open>a < b\<close> and \<^verbatim>\<open>a <= b\<close>: false whenever an operand is NaN.\<close>

fun fl_less :: "pyfloat \<Rightarrow> pyfloat \<Rightarrow> bool" where
  "fl_less (Fin x) (Fin y) \<longleftrightarrow> x < y"
| "fl_less NaN _ \<longleftrightarrow> False"
| "fl_less _ NaN \<longleftrightarrow> False"
| "fl_less PInf _ \<longleftrightarrow> False"
| "fl_less _ NInf \<longleftrightarrow> False"
| "fl_less _ _ \<longleftrightarrow> True"

fun fl_le :: "pyfloat \<Rightarrow> pyfloat \<Rightarrow> bool" where
  "fl_le (Fin x) (Fin y) \<longleftrightarrow> x \<le> y"
| "fl_le NaN _ \<longleftrightarrow> False"
| "fl_le _ NaN \<longleftrightarrow> False"
| "fl_le NInf _ \<longleftrightarrow> True"
| "fl_le _ PInf \<longleftrightarrow> True"
| "fl_le _ _ \<longleftrightarrow> False"

text \<open>\<^verbatim>\<open>a + b\<close>, \<^verbatim>\<open>a - b\<close> and \<^verbatim>\<open>a * b\<close>: they never raise.\<close>

fun fl_add :: "pyfloat \<Rightarrow> pyfloat \<Rightarrow> pyfloat" where
  "fl_add (Fin x) (Fin y) = to_float (x + y)"
| "fl_add NaN _ = NaN"
| "fl_add _ NaN = NaN"
| "fl_add PInf NInf = NaN"
| "fl_add NInf PInf = NaN"
| "fl_add PInf _ = PInf"
| "fl_add NInf _ = NInf"
| "fl_add _ PInf = PInf"
| "fl_add _ NInf = NInf"

fun fl_neg :: "pyfloat \<Rightarrow> pyfloat" where
  "fl_neg (Fin x) = Fin (- x)"
| "fl_neg PInf = NInf"
| "fl_neg NInf = PInf"
| "fl_neg NaN = NaN"

definition fl_sub :: "pyfloat \<Rightarrow> pyfloat \<Rightarrow> pyfloat" where
  "fl_sub a b = fl_add a (fl_neg b)"

fun fl_sign :: "pyfloat \<Rightarrow> int" where
  "fl_sign (Fin x) = (if 0 < x then 1 else if x < 0 then - 1 else 0)"
| "fl_sign PInf = 1"
| "fl_sign NInf = - 1"
| "fl_sign NaN = 0"

fun fl_mul :: "pyfloat \<Rightarrow> pyfloat \<Rightarrow> pyfloat" where
  "fl_mul (Fin x) (Fin y) = to_float (x * y)"
| "fl_mul NaN _ = NaN"
| "fl_mul _ NaN = NaN"
| "fl_mul a b =
     (if fl_sign a * fl_sign b = 0 then NaN
      else if 0 < fl_sign a * fl_sign b then PInf else NInf)"

text \<open>\<^verbatim>\<open>a / b\<close>: ZeroDivisionError on a zero divisor, whatever the dividend.\<close>

fun fl_div :: "pyfloat \<Rightarrow> pyfloat \<Rightarrow> py_error + pyfloat" where
  "fl_div a (Fin y) =
     (if y = 0 then Inl ZeroDivisionError
      else Inr (case a of
                  Fin x \<Rightarrow> to_float (x / y)
                | PInf \<Rightarrow> if 0 < y then PInf else NInf
                | NInf \<Rightarrow> if 0 < y then NInf else PInf
                | NaN \<Rightarrow> NaN))"
| "fl_div NaN _ = Inr NaN"
| "fl_div _ NaN = Inr NaN"
| "fl_div (Fin x) _ = Inr (Fin 0)"
| "fl_div _ _ = Inr NaN"

text \<open>
  \<^verbatim>\<open>round(x, 1)\<close> on a float: the exact value of \<open>x\<close> to one decimal place, a tie going
  to the even last digit, and then the double nearest to that decimal; an infinity and
  NaN are returned as they are.
\<close>

fun py_round1_fl :: "pyfloat \<Rightarrow> pyfloat" where
  "py_round1_fl (Fin x) = to_float (of_int (round_half_even (x * 10)) / 10)"
| "py_round1_fl a = a"

text \<open>An exception ends the evaluation: the rest is skipped.\<close>

definition bind_exc :: "py_error + 'a \<Rightarrow> ('a \<Rightarrow> py_error + 'b) \<Rightarrow> py_error + 'b" where
  "bind_exc x f = (case x of Inl e \<Rightarrow> Inl e | Inr v \<Rightarrow> f v)"

subsection \<open>The calculator\<close>

text \<open>
  \<^verbatim>\<open>calculate_bmr\<close>, lines 18 to 43: each operation rounds. \<^verbatim>\<open>5 * age\<close> is an int
  product, converted when it is subtracted from a float; the function has no handler, so
  the OverflowError of the conversion leaves it.
\<close>

definition calculate_bmr_fl :: "pyfloat \<Rightarrow> pyfloat \<Rightarrow> int \<Rightarrow> string \<Rightarrow> py_error + pyfloat" where
  "calculate_bmr_fl weight_kg height_cm age gender =
     bind_exc (float_of_int (5 * age)) (\<lambda>age5.
       let s = fl_sub (fl_add (fl_mul (Fin 10) weight_kg) (fl_mul (to_float (25 / 4)) height_cm))
                 age5
       in Inr (if gender = ''male'' then fl_add s (Fin 5) else fl_sub s (Fin 161)))"

text \<open>\<^verbatim>\<open>get_activity_multiplier\<close>, lines 46 to 71.\<close>

definition multipliers_fl :: "(string \<times> pyfloat) list" where
  "multipliers_fl =
     [(''sedentary'', to_float (12 / 10)),
      (''lightly_active'', to_float (1375 / 1000)),
      (''moderately_active'', to_float (155 / 100)),
      (''very_active'', to_float (1725 / 1000)),
      (''extremely_active'', to_float (19 / 10))]"

definition get_activity_multiplier_fl :: "string \<Rightarrow> pyfloat" where
  "get_activity_multiplier_fl activity_level =
     (case map_of multipliers_fl activity_level of None \<Rightarrow> to_float (12 / 10) | Some m \<Rightarrow> m)"

text \<open>The dictionary \<^verbatim>\<open>calculate_macro_distribution\<close> returns on success.\<close>

record macros_fl =
  protein_g_fl :: pyfloat
  fat_g_fl :: pyfloat
  carbs_g_fl :: pyfloat
  protein_cal_fl :: pyfloat
  fat_cal_fl :: pyfloat
  carbs_cal_fl :: pyfloat
  protein_percent_fl :: pyfloat
  fat_percent_fl :: pyfloat
  carbs_percent_fl :: pyfloat

text \<open>Lines 243 to 252: grams of protein per kilogram of body weight.\<close>

definition protein_per_kg_fl :: "string \<Rightarrow> string \<Rightarrow> pyfloat" where
  "protein_per_kg_fl goal activity_level =
     (let per_kg =
        (if goal = ''muscle_gain'' then to_float (22 / 10)
         else if goal \<in> set [''recomp'', ''weight_loss''] then to_float 2
         else to_float (18 / 10))
      in if activity_level \<in> set [''very_active'', ''extremely_active'']
         then fl_add per_kg (to_float (2 / 10)) else per_kg)"

text \<open>Lines 259 to 265: the share of the calories given to fat.\<close>

definition fat_share_fl :: "string \<Rightarrow> pyfloat" where
  "fat_share_fl goal =
     (if goal = ''weight_loss'' then to_float (25 / 100)
      else if goal = ''muscle_gain'' then to_float (25 / 100)
      else to_float (30 / 100))"

text \<open>Lines 267 to 274: the pair (\<open>fat_g\<close>, \<open>fat_cal\<close>), unrounded.\<close>

definition fat_allocation_fl ::
  "pyfloat \<Rightarrow> pyfloat \<Rightarrow> string \<Rightarrow> py_error + pyfloat \<times> pyfloat" where
  "fat_allocation_fl target weight_kg goal =
     (let fat_cal0 = fl_mul target (fat_share_fl goal)
      in bind_exc (fl_div fat_cal0 (Fin 9)) (\<lambda>fat_g0.
           let min_fat_g = fl_mul weight_kg (to_float (8 / 10))
           in Inr (if fl_less fat_g0 min_fat_g
                   then (min_fat_g, fl_mul min_fat_g (Fin 9))
                   else (fat_g0, fat_cal0))))"

text \<open>Lines 240 to 303: the body of the \<^verbatim>\<open>try\<close>, with what it raises.\<close>

definition macro_distribution_body ::
  "pyfloat \<Rightarrow> pyfloat \<Rightarrow> string \<Rightarrow> string \<Rightarrow> py_error + macros_fl tool_result" where
  "macro_distribution_body target weight_kg goal activity_level =
     (let p_g = fl_mul weight_kg (protein_per_kg_fl goal activity_level);
          p_cal = fl_mul p_g (Fin 4)
      in bind_exc (fat_allocation_fl target weight_kg goal) (\<lambda>(f_g, f_cal).
         let c_cal = fl_sub (fl_sub target p_cal) f_cal
         in bind_exc (fl_div c_cal (Fin 4)) (\<lambda>c_g.
            if fl_less c_g (Fin 0)
            then Inr (Err ''Unable to fit macros within calorie target. Protein and fat requirements exceed total calories.'')
            else
              bind_exc (fl_div p_cal target) (\<lambda>p_share.
              bind_exc (fl_div f_cal target) (\<lambda>f_share.
              bind_exc (fl_div c_cal target) (\<lambda>c_share.
                Inr (Ok \<lparr> protein_g_fl = py_round1_fl p_g,
                          fat_g_fl = py_round1_fl f_g,
                          carbs_g_fl = py_round1_fl c_g,
                          protein_cal_fl = py_round1_fl p_cal,
                          fat_cal_fl = py_round1_fl f_cal,
                          carbs_cal_fl = py_round1_fl c_cal,
                          protein_percent_fl = py_round1_fl (fl_mul p_share (Fin 100)),
                          fat_percent_fl = py_round1_fl (fl_mul f_share (Fin 100)),
                          carbs_percent_fl = py_round1_fl (fl_mul c_share (Fin 100)) \<rparr>)))))))"

text \<open>
  \<^verbatim>\<open>calculate_macro_distribution\<close>, lines 220 to 309: the handler on line 305 turns an
  exception into an error dictionary.
\<close>

definition calculate_macro_distribution_fl ::
  "pyfloat \<Rightarrow> pyfloat \<Rightarrow> string \<Rightarrow> string \<Rightarrow> macros_fl tool_result" where
  "calculate_macro_distribution_fl target weight_kg goal activity_level =
     (case macro_distribution_body target weight_kg goal activity_level of
        Inl e \<Rightarrow> Err (''Error calculating macro distribution: '' @ str_exc e)
      | Inr r \<Rightarrow> r)"

text \<open>The success dictionary of \<^verbatim>\<open>calculate_kbju\<close> and the session state.\<close>

record kbju_fl = macros_fl +
  bmr_fl :: pyfloat
  tdee_fl :: pyfloat
  target_calories_fl :: pyfloat
  notes_fl :: fstring

type_synonym tool_state_fl = "string \<rightharpoonup> kbju_fl"

text \<open>
  Lines 170 to 178: the calorie target with its note. The comparison with the int
  minimum is exact, and a clamped target is that int.
\<close>

definition safe_target_fl ::
  "string \<Rightarrow> string \<Rightarrow> string \<Rightarrow> pyfloat \<Rightarrow> int \<Rightarrow> pyfloat \<times> fstring" where
  "safe_target_fl gender goal goal_rate tdee_v adjustment =
     (let target = fl_add tdee_v (Fin (of_int adjustment))
      in if fl_less target (Fin (of_int (min_calories gender)))
         then (Fin (of_int (min_calories gender)),
               [Lit ''Calories adjusted to safe minimum ('', IntStr (min_calories gender),
                Lit '' kcal)''])
         else (target,
               [Lit (''Calculation based on '' @ goal @ '' goal at '' @ goal_rate @ '' rate'')]))"

text \<open>
  \<^verbatim>\<open>calculate_kbju\<close>, lines 74 to 217, with the dictionary and the session state. The
  handler on line 213 catches what \<^verbatim>\<open>calculate_bmr\<close> and the lookup of line 169 raise.
\<close>

definition calculate_kbju_fl ::
  "tool_state_fl \<Rightarrow> pyfloat \<Rightarrow> pyfloat \<Rightarrow> int \<Rightarrow> string \<Rightarrow> string \<Rightarrow> string \<Rightarrow> string
     \<Rightarrow> kbju_fl tool_result \<times> tool_state_fl" where
  "calculate_kbju_fl st weight_kg height_cm age gender activity_level goal goal_rate =
     (if fl_le weight_kg (Fin 0) \<or> fl_le height_cm (Fin 0) \<or> age \<le> 0
      then (Err ''Weight, height, and age must be positive values'', st)
      else if age < 18
      then (Err ''This calculator is designed for adults 18+. Please consult a pediatric nutritionist.'', st)
      else
        case calculate_bmr_fl weight_kg height_cm age gender of
          Inl e \<Rightarrow> (Err (''Error calculating KBJU: '' @ str_exc e), st)
        | Inr bmr_v \<Rightarrow>
            let tdee_v = fl_mul bmr_v (get_activity_multiplier_fl activity_level)
            in case goal_adjustment goal goal_rate of
                 Inl e \<Rightarrow> (Err (''Error calculating KBJU: '' @ str_exc e), st)
               | Inr adjustment \<Rightarrow>
                   let (target, note) = safe_target_fl gender goal goal_rate tdee_v adjustment
                   in case calculate_macro_distribution_fl target weight_kg goal activity_level of
                        Err m \<Rightarrow> (Err m, st)
                      | Ok m \<Rightarrow>
                          let result = macros_fl.extend m
                                (kbju_fl.fields (py_round1_fl bmr_v) (py_round1_fl tdee_v)
                                   (py_round1_fl target) note)
                          in (Ok result, st(''kbju_calculation'' \<mapsto> result)))"

subsection \<open>Claim C1 in the words of the specification\<close>

text \<open>
  The macro calories of a success dictionary add up to its calorie target within 1 kcal
  (which takes four numbers), and its six macro figures are not negative, by the
  comparison \<^verbatim>\<open>0 <= x\<close> of Python.
\<close>

definition macros_balanced :: "kbju_fl \<Rightarrow> bool" where
  "macros_balanced r =
     (case (protein_cal_fl r, fat_cal_fl r, carbs_cal_fl r, target_calories_fl r) of
        (Fin p, Fin f, Fin c, Fin t) \<Rightarrow> \<bar>p + f + c - t\<bar> \<le> 1
      | _ \<Rightarrow> False)"

definition macros_nonneg :: "kbju_fl \<Rightarrow> bool" where
  "macros_nonneg r \<longleftrightarrow>
     fl_le (Fin 0) (protein_g_fl r) \<and> fl_le (Fin 0) (fat_g_fl r) \<and> fl_le (Fin 0) (carbs_g_fl r)
     \<and> fl_le (Fin 0) (protein_cal_fl r) \<and> fl_le (Fin 0) (fat_cal_fl r)
     \<and> fl_le (Fin 0) (carbs_cal_fl r)"


section \<open>Properties of the calculator\<close>

subsection \<open>Rounding\<close>

lemma round_half_even_bounds: "\<bar>of_int (round_half_even y) - y\<bar> \<le> 1 / 2"
proof -
  have "of_int \<lfloor>y\<rfloor> \<le> y" "y < of_int \<lfloor>y\<rfloor> + 1" by linarith+
  then show ?thesis
    by (auto simp: round_half_even_def Let_def)
qed

lemma py_round1_error: "\<bar>py_round1 x - x\<bar> \<le> 1 / 20"
  using round_half_even_bounds [of "x * 10"]
  by (simp add: py_round1_def field_simps abs_le_iff)

lemma round_half_even_nonneg: "0 \<le> y \<Longrightarrow> 0 \<le> round_half_even y"
  by (auto simp: round_half_even_def Let_def)

lemma py_round1_nonneg: "0 \<le> x \<Longrightarrow> 0 \<le> py_round1 x"
  using round_half_even_nonneg [of "x * 10"] by (simp add: py_round1_def)


subsection \<open>The macro split\<close>

lemma protein_per_kg_pos: "0 < protein_per_kg goal act"
  by (simp add: protein_per_kg_def Let_def)

lemma fat_share_pos: "0 < fat_share goal"
  by (simp add: fat_share_def)

lemma fat_allocation_nonneg:
  "0 \<le> tc \<Longrightarrow> 0 \<le> fst (fat_allocation tc w goal) \<and> 0 \<le> snd (fat_allocation tc w goal)"
proof -
  assume "0 \<le> tc"
  then have "0 \<le> tc * fat_share goal"
    using fat_share_pos [of goal] by simp
  then show ?thesis
    by (auto simp: fat_allocation_def Let_def)
qed

lemma macro_distribution_Ok:
  assumes "calculate_macro_distribution tc w goal act = Ok m"
  shows "0 \<le> tc - w * protein_per_kg goal act * 4 - snd (fat_allocation tc w goal)
       \<and> tc \<noteq> 0
       \<and> protein_g m = py_round1 (w * protein_per_kg goal act)
       \<and> protein_cal m = py_round1 (w * protein_per_kg goal act * 4)
       \<and> fat_g m = py_round1 (fst (fat_allocation tc w goal))
       \<and> fat_cal m = py_round1 (snd (fat_allocation tc w goal))
       \<and> carbs_cal m = py_round1 (tc - w * protein_per_kg goal act * 4 - snd (fat_allocation tc w goal))
       \<and> carbs_g m = py_round1 ((tc - w * protein_per_kg goal act * 4 - snd (fat_allocation tc w goal)) / 4)"
  using assms
  by (auto simp: calculate_macro_distribution_def Let_def split_beta split: if_splits)


subsection \<open>The calorie target\<close>

lemma min_calories_pos: "0 < min_calories gender"
  by (simp add: min_calories_def)

lemma safe_target_ge: "of_int (min_calories gender) \<le> fst (safe_target gender goal rate t adj)"
  by (simp add: safe_target_def Let_def)

lemma safe_target_pos: "0 < fst (safe_target gender goal rate t adj)"
proof -
  have "(0::real) < of_int (min_calories gender)"
    using min_calories_pos [of gender] by simp
  then show ?thesis
    using safe_target_ge [of gender goal rate t adj] by linarith
qed



lemma calculate_kbju_Ok:
  assumes "fst (calculate_kbju st w h age gender act goal rate) = Ok r"
  shows "\<exists>adj m. 0 < w \<and> 0 < h \<and> 18 \<le> age
         \<and> goal_adjustment goal rate = Inr adj
         \<and> calculate_macro_distribution
              (fst (safe_target gender goal rate
                 (calculate_bmr w h age gender * get_activity_multiplier act) adj)) w goal act = Ok m
         \<and> r = macros.extend m
              (kbju.fields (py_round1 (calculate_bmr w h age gender))
                 (py_round1 (calculate_bmr w h age gender * get_activity_multiplier act))
                 (py_round1 (fst (safe_target gender goal rate
                    (calculate_bmr w h age gender * get_activity_multiplier act) adj)))
                 (snd (safe_target gender goal rate
                    (calculate_bmr w h age gender * get_activity_multiplier act) adj)))"
  using assms
  by (auto simp: calculate_kbju_def Let_def split_beta
           split: if_splits sum.splits tool_result.splits)


subsection \<open>The macro calories in exact arithmetic\<close>

text \<open>
  In exact arithmetic a success has macro calories that add up to the calorie target
  within the four roundings to one decimal, and no negative figure.
\<close>

lemma kbju_exact_macro_sum:
  assumes "fst (calculate_kbju st w h age gender act goal rate) = Ok r"
  shows "\<bar>protein_cal r + fat_cal r + carbs_cal r - target_calories r\<bar> \<le> 1
       \<and> 0 \<le> protein_g r \<and> 0 \<le> fat_g r \<and> 0 \<le> carbs_g r
       \<and> 0 \<le> protein_cal r \<and> 0 \<le> fat_cal r \<and> 0 \<le> carbs_cal r"
proof -
  from calculate_kbju_Ok [OF assms] obtain adj m where
    w: "0 < w" and
    m: "calculate_macro_distribution
              (fst (safe_target gender goal rate
                 (calculate_bmr w h age gender * get_activity_multiplier act) adj)) w goal act = Ok m" and
    r: "r = macros.extend m
              (kbju.fields (py_round1 (calculate_bmr w h age gender))
                 (py_round1 (calculate_bmr w h age gender * get_activity_multiplier act))
                 (py_round1 (fst (safe_target gender goal rate
                    (calculate_bmr w h age gender * get_activity_multiplier act) adj)))
                 (snd (safe_target gender goal rate
                    (calculate_bmr w h age gender * get_activity_multiplier act) adj)))"
    by blast
  define tc where "tc = fst (safe_target gender goal rate
                 (calculate_bmr w h age gender * get_activity_multiplier act) adj)"
  define p where "p = w * protein_per_kg goal act"
  define f where "f = fat_allocation tc w goal"
  define c where "c = tc - p * 4 - snd f"
  have tc_pos: "0 < tc"
    unfolding tc_def by (rule safe_target_pos)
  have p_nonneg: "0 \<le> p"
    using w protein_per_kg_pos [of goal act] by (simp add: p_def)
  have f_nonneg: "0 \<le> fst f" "0 \<le> snd f"
    using fat_allocation_nonneg [of tc w goal] tc_pos by (simp_all add: f_def)
  note M = macro_distribution_Ok [OF m, folded tc_def, folded p_def, folded f_def, folded c_def]
  have c_nonneg: "0 \<le> c" using M by simp
  have fields:
    "protein_g r = py_round1 p" "protein_cal r = py_round1 (p * 4)"
    "fat_g r = py_round1 (fst f)" "fat_cal r = py_round1 (snd f)"
    "carbs_cal r = py_round1 c" "carbs_g r = py_round1 (c / 4)"
    "target_calories r = py_round1 tc"
    using M by (simp_all add: r macros.defs kbju.defs tc_def)
  have sum: "p * 4 + snd f + c = tc" by (simp add: c_def)
  have "\<bar>py_round1 (p * 4) + py_round1 (snd f) + py_round1 c - py_round1 tc\<bar> \<le> 1"
    using py_round1_error [of "p * 4"] py_round1_error [of "snd f"]
          py_round1_error [of c] py_round1_error [of tc] sum
    by linarith
  moreover have "0 \<le> py_round1 p" "0 \<le> py_round1 (p * 4)" "0 \<le> py_round1 (fst f)"
    "0 \<le> py_round1 (snd f)" "0 \<le> py_round1 c" "0 \<le> py_round1 (c / 4)"
    using p_nonneg f_nonneg c_nonneg by (simp_all add: py_round1_nonneg)
  ultimately show ?thesis by (simp add: fields)
qed

subsection \<open>The basal metabolic rate in exact arithmetic\<close>

text \<open>
  In exact arithmetic \<open>calculate_bmr\<close> is the Mifflin-St Jeor formula of the
  specification, which is strictly increasing in the weight and in the height.
\<close>

lemma calculate_bmr_exact:
  "calculate_bmr w h a g = mifflin_st_jeor w h a (g = ''male'')
   \<and> (w < w' \<longrightarrow> calculate_bmr w h a g < calculate_bmr w' h a g)
   \<and> (h < h' \<longrightarrow> calculate_bmr w h a g < calculate_bmr w h' a g)"
  by (simp add: calculate_bmr_def mifflin_st_jeor_def)


subsection \<open>C2: protein and fat above the calorie target\<close>



subsection \<open>C6: the safe minimum\<close>




section \<open>Properties of the calculator in double precision\<close>

subsection \<open>Rounding to a double\<close>

lemma round_half_even_of_int [simp]: "round_half_even (of_int n) = n"
  by (simp add: round_half_even_def Let_def)

lemma round_half_even_mono:
  assumes "a \<le> b"
  shows "round_half_even a \<le> round_half_even b"
proof (cases "\<lfloor>a\<rfloor> = \<lfloor>b\<rfloor>")
  case True
  then show ?thesis
    using assms by (auto simp: round_half_even_def Let_def)
next
  case False
  then have "\<lfloor>a\<rfloor> + 1 \<le> \<lfloor>b\<rfloor>"
    using floor_mono [OF assms] by linarith
  moreover have "round_half_even a \<le> \<lfloor>a\<rfloor> + 1"
    by (auto simp: round_half_even_def Let_def)
  moreover have "\<lfloor>b\<rfloor> \<le> round_half_even b"
    by (auto simp: round_half_even_def Let_def)
  ultimately show ?thesis by linarith
qed

lemma exponent_bounds:
  assumes "x \<noteq> 0"
  shows "2 powi exponent x \<le> \<bar>x\<bar>" and "\<bar>x\<bar> < 2 powi (exponent x + 1)"
proof -
  have both: "2 powi exponent x \<le> \<bar>x\<bar> \<and> \<bar>x\<bar> < 2 powi (exponent x + 1)"
  proof (cases "1 \<le> \<bar>x\<bar>")
    case True
    define n where "n = \<lfloor>\<bar>x\<bar>\<rfloor>"
    have n: "0 < n" using True by (simp add: n_def)
    have e: "exponent x = bitlen n - 1"
      using True by (simp add: exponent_def n_def)
    have b1: "1 \<le> bitlen n"
      using n by (simp add: bitlen_alt_def)
    from bitlen_bounds [OF n]
    have lo: "2 ^ nat (bitlen n - 1) \<le> n" and hi: "n < 2 ^ nat (bitlen n)" by simp_all
    have "real_of_int (2 ^ nat (bitlen n - 1)) \<le> real_of_int n"
      using lo by (simp only: of_int_le_iff)
    also have "real_of_int n \<le> \<bar>x\<bar>" by (simp add: n_def)
    finally have 1: "2 powi (bitlen n - 1) \<le> \<bar>x\<bar>"
      using b1 by (simp add: power_int_def)
    have "n + 1 \<le> 2 ^ nat (bitlen n)" using hi by simp
    then have "real_of_int (n + 1) \<le> real_of_int (2 ^ nat (bitlen n))"
      by (simp only: of_int_le_iff)
    moreover have "\<bar>x\<bar> < real_of_int (n + 1)"
      by (simp add: n_def)
    ultimately have 2: "\<bar>x\<bar> < 2 powi (bitlen n)"
      using b1 by (simp add: power_int_def)
    show ?thesis using 1 2 by (simp add: e)
  next
    case False
    define y where "y = 1 / \<bar>x\<bar>"
    have y1: "1 < y" using False assms by (simp add: y_def)
    define m where "m = \<lceil>y\<rceil> - 1"
    have m: "0 < m" using y1 by (simp add: m_def)
    have my: "real_of_int m < y" "y \<le> real_of_int m + 1"
      by (simp_all add: m_def) linarith+
    have e: "exponent x = - bitlen m"
      using False by (simp add: exponent_def m_def y_def)
    have b1: "1 \<le> bitlen m"
      using m by (simp add: bitlen_alt_def)
    from bitlen_bounds [OF m]
    have lo: "2 ^ nat (bitlen m - 1) \<le> m" and hi: "m < 2 ^ nat (bitlen m)" by simp_all
    have "real_of_int (2 ^ nat (bitlen m - 1)) \<le> real_of_int m"
      using lo by (simp only: of_int_le_iff)
    then have "2 ^ nat (bitlen m - 1) \<le> real_of_int m"
      by (simp only: of_int_power of_int_numeral)
    then have ylo: "2 ^ nat (bitlen m - 1) < y" using my by linarith
    have "m + 1 \<le> 2 ^ nat (bitlen m)" using hi by simp
    then have "real_of_int (m + 1) \<le> real_of_int (2 ^ nat (bitlen m))"
      by (simp only: of_int_le_iff)
    then have "real_of_int m + 1 \<le> 2 ^ nat (bitlen m)"
      by (simp only: of_int_power of_int_numeral of_int_add of_int_1)
    then have yhi: "y \<le> 2 ^ nat (bitlen m)" using my by linarith
    have xy: "\<bar>x\<bar> = 1 / y" using assms by (simp add: y_def)
    have ypos: "0 < y" using y1 by simp
    have 1: "2 powi (- bitlen m) \<le> \<bar>x\<bar>"
    proof -
      have "1 / 2 ^ nat (bitlen m) \<le> 1 / y"
        using yhi ypos by (simp add: frac_le)
      then show ?thesis
        using b1 by (simp add: xy power_int_def field_simps)
    qed
    have 2: "\<bar>x\<bar> < 2 powi (- bitlen m + 1)"
    proof -
      have "1 / y < 1 / 2 ^ nat (bitlen m - 1)"
        using ylo by (simp add: frac_less2)
      moreover have "(2::real) powi (- bitlen m + 1) = 1 / 2 ^ nat (bitlen m - 1)"
        using b1 by (simp add: power_int_def field_simps nat_diff_distrib)
      ultimately show ?thesis by (simp add: xy)
    qed
    show ?thesis using 1 2 by (simp add: e)
  qed
  show "2 powi exponent x \<le> \<bar>x\<bar>" using both by simp
  show "\<bar>x\<bar> < 2 powi (exponent x + 1)" using both by simp
qed

lemma power_int_less_exp:
  assumes "(2::real) powi a < 2 powi b"
  shows "a < b"
proof (rule ccontr)
  assume "\<not> a < b"
  then have "b \<le> a" by simp
  then have "(2::real) powi b \<le> 2 powi a"
    by (intro power_int_increasing) simp_all
  with assms show False by simp
qed

lemma two_power_53: "(2::real) ^ 53 * 2 powi (e - 52) = 2 powi (e + 1)"
proof -
  have "(2::real) ^ 53 * 2 powi (e - 52) = 2 powi 53 * 2 powi (e - 52)"
    by (simp only: power_int_numeral)
  also have "\<dots> = 2 powi (53 + (e - 52))"
    by (rule power_int_add [symmetric]) simp
  also have "53 + (e - 52) = e + 1" by simp
  finally show ?thesis .
qed

lemma two_power_52: "(2::real) ^ 52 * 2 powi (e - 52) = 2 powi e"
proof -
  have "(2::real) ^ 52 * 2 powi (e - 52) = 2 powi 52 * 2 powi (e - 52)"
    by (simp only: power_int_numeral)
  also have "\<dots> = 2 powi (52 + (e - 52))"
    by (rule power_int_add [symmetric]) simp
  also have "52 + (e - 52) = e" by simp
  finally show ?thesis .
qed

lemma exponent_unique:
  assumes "2 powi e \<le> \<bar>x\<bar>" "\<bar>x\<bar> < 2 powi (e + 1)"
  shows "exponent x = e"
proof -
  have "0 < (2::real) powi e" by simp
  then have "0 < \<bar>x\<bar>" using assms(1) by linarith
  then have x: "x \<noteq> 0" by simp
  note b = exponent_bounds [OF x]
  have "(2::real) powi e < 2 powi (exponent x + 1)"
    using assms(1) b(2) by linarith
  then have 1: "e < exponent x + 1"
    by (rule power_int_less_exp)
  have "(2::real) powi exponent x < 2 powi (e + 1)"
    using assms(2) b(1) by linarith
  then have 2: "exponent x < e + 1"
    by (rule power_int_less_exp)
  show ?thesis using 1 2 by linarith
qed


lemma exponent_mono:
  assumes "0 < x" "x \<le> y"
  shows "exponent x \<le> exponent y"
proof -
  have x: "x \<noteq> 0" and y: "y \<noteq> 0" using assms by simp_all
  have "2 powi exponent x \<le> \<bar>x\<bar>" by (rule exponent_bounds(1) [OF x])
  also have "\<bar>x\<bar> \<le> \<bar>y\<bar>" using assms by simp
  also have "\<bar>y\<bar> < 2 powi (exponent y + 1)" by (rule exponent_bounds(2) [OF y])
  finally have "exponent x < exponent y + 1"
    by (rule power_int_less_exp)
  then show ?thesis by simp
qed

lemma ulp_pos: "0 < ulp x"
  by (simp add: ulp_def)

lemma round_double_nonneg:
  assumes "0 \<le> x"
  shows "0 \<le> round_double x"
proof -
  have "0 \<le> \<bar>x\<bar> / ulp x" using ulp_pos [of x] by simp
  then have "round_half_even 0 \<le> round_half_even (\<bar>x\<bar> / ulp x)"
    by (rule round_half_even_mono)
  then have "0 \<le> round_half_even (\<bar>x\<bar> / ulp x)"
    using round_half_even_of_int [of 0] by simp
  then show ?thesis
    using assms ulp_pos [of x] by (simp add: round_double_def sgn_if)
qed

lemma round_double_minus: "round_double (- x) = - round_double x"
  by (simp add: round_double_def ulp_def exponent_def sgn_if)

text \<open>A positive number is rounded within its binade.\<close>

lemma round_double_upper:
  assumes "0 < x"
  shows "round_double x \<le> 2 powi (max (exponent x) (- 1022) + 1)"
proof -
  define e where "e = max (exponent x) (- 1022)"
  have x: "x \<noteq> 0" using assms by simp
  have u: "ulp x = 2 powi (e - 52)" by (simp add: ulp_def e_def)
  have "\<bar>x\<bar> < 2 powi (exponent x + 1)" by (rule exponent_bounds(2) [OF x])
  also have "\<dots> \<le> 2 powi (e + 1)"
    by (rule power_int_increasing) (simp_all add: e_def)
  finally have "\<bar>x\<bar> / ulp x \<le> 2 powi (e + 1) / 2 powi (e - 52)"
    by (simp add: u divide_right_mono)
  also have "\<dots> = 2 ^ 53"
    using two_power_53 [of e] by (simp add: field_simps)
  finally have "\<bar>x\<bar> / ulp x \<le> of_int (2 ^ 53)" by simp
  then have "round_half_even (\<bar>x\<bar> / ulp x) \<le> round_half_even (of_int (2 ^ 53))"
    by (rule round_half_even_mono)
  then have "round_half_even (\<bar>x\<bar> / ulp x) \<le> 2 ^ 53"
    by (simp only: round_half_even_of_int)
  then have "real_of_int (round_half_even (\<bar>x\<bar> / ulp x)) \<le> 2 ^ 53"
    by (metis of_int_le_iff of_int_numeral of_int_power)
  then have "real_of_int (round_half_even (\<bar>x\<bar> / ulp x)) * ulp x \<le> 2 ^ 53 * ulp x"
    using ulp_pos [of x] by (simp add: mult_right_mono)
  also have "2 ^ 53 * ulp x = 2 powi (e + 1)"
    unfolding u by (rule two_power_53)
  finally show ?thesis
    using assms by (simp add: round_double_def e_def)
qed

lemma round_double_lower:
  assumes "0 < x" "- 1022 \<le> exponent x"
  shows "2 powi exponent x \<le> round_double x"
proof -
  define e where "e = exponent x"
  have x: "x \<noteq> 0" using assms by simp
  have u: "ulp x = 2 powi (e - 52)" using assms(2) by (simp add: ulp_def e_def max_def)
  have "2 powi e \<le> \<bar>x\<bar>" unfolding e_def by (rule exponent_bounds(1) [OF x])
  then have "2 powi e / 2 powi (e - 52) \<le> \<bar>x\<bar> / ulp x"
    by (simp add: u divide_right_mono)
  moreover have "(2::real) powi e / 2 powi (e - 52) = 2 ^ 52"
    using two_power_52 [of e] by (simp add: field_simps)
  ultimately have "of_int (2 ^ 52) \<le> \<bar>x\<bar> / ulp x" by simp
  then have "round_half_even (of_int (2 ^ 52)) \<le> round_half_even (\<bar>x\<bar> / ulp x)"
    by (rule round_half_even_mono)
  then have "2 ^ 52 \<le> round_half_even (\<bar>x\<bar> / ulp x)"
    by (simp only: round_half_even_of_int)
  then have "2 ^ 52 \<le> real_of_int (round_half_even (\<bar>x\<bar> / ulp x))"
    by (metis of_int_le_iff of_int_numeral of_int_power)
  then have "2 ^ 52 * ulp x \<le> real_of_int (round_half_even (\<bar>x\<bar> / ulp x)) * ulp x"
    using ulp_pos [of x] by (simp add: mult_right_mono)
  moreover have "2 ^ 52 * ulp x = 2 powi e"
    unfolding u by (rule two_power_52)
  ultimately show ?thesis
    using assms by (simp add: round_double_def e_def)
qed

lemma round_double_mono_pos:
  assumes "0 < x" "x \<le> y"
  shows "round_double x \<le> round_double y"
proof -
  define ex where "ex = max (exponent x) (- 1022)"
  define ey where "ey = max (exponent y) (- 1022)"
  have y: "0 < y" using assms by simp
  have le: "ex \<le> ey"
    using exponent_mono [OF assms] by (simp add: ex_def ey_def)
  show ?thesis
  proof (cases "ex = ey")
    case True
    then have u: "ulp x = ulp y" by (simp add: ulp_def ex_def ey_def)
    have "\<bar>x\<bar> / ulp y \<le> \<bar>y\<bar> / ulp y"
      using assms ulp_pos [of y] by (simp add: divide_right_mono)
    then have "round_half_even (\<bar>x\<bar> / ulp y) \<le> round_half_even (\<bar>y\<bar> / ulp y)"
      by (rule round_half_even_mono)
    then have "real_of_int (round_half_even (\<bar>x\<bar> / ulp y)) * ulp y
        \<le> real_of_int (round_half_even (\<bar>y\<bar> / ulp y)) * ulp y"
      using ulp_pos [of y] by (simp add: mult_right_mono)
    then show ?thesis
      using assms y by (simp add: round_double_def u)
  next
    case False
    then have lt: "ex + 1 \<le> ey" using le by simp
    then have ey: "ey = exponent y" "- 1022 \<le> exponent y"
      by (simp_all add: ex_def ey_def max_def split: if_splits)
    have "round_double x \<le> 2 powi (ex + 1)"
      unfolding ex_def by (rule round_double_upper [OF assms(1)])
    also have "\<dots> \<le> 2 powi ey"
      by (rule power_int_increasing) (use lt in simp_all)
    also have "\<dots> \<le> round_double y"
      unfolding ey(1) by (rule round_double_lower [OF y ey(2)])
    finally show ?thesis .
  qed
qed

lemma round_double_mono:
  assumes "x \<le> y"
  shows "round_double x \<le> round_double y"
proof -
  consider "0 < x" | "x \<le> 0" "0 \<le> y" | "y < 0" by linarith
  then show ?thesis
  proof cases
    case 1
    then show ?thesis using assms by (rule round_double_mono_pos)
  next
    case 2
    have "round_double x \<le> 0"
      using round_double_nonneg [of "- x"] 2(1) by (simp add: round_double_minus)
    also have "0 \<le> round_double y" using 2(2) by (rule round_double_nonneg)
    finally show ?thesis .
  next
    case 3
    have "round_double (- y) \<le> round_double (- x)"
      using 3 assms by (intro round_double_mono_pos) simp_all
    then show ?thesis by (simp add: round_double_minus)
  qed
qed


lemma round_double_error: "\<bar>round_double x - x\<bar> \<le> ulp x / 2"
proof (cases "x = 0")
  case True
  then show ?thesis using ulp_pos [of 0] by (simp add: round_double_def)
next
  case False
  define k where "k = round_half_even (\<bar>x\<bar> / ulp x)"
  have u: "0 < ulp x" by (rule ulp_pos)
  have "\<bar>real_of_int k - \<bar>x\<bar> / ulp x\<bar> \<le> 1 / 2"
    unfolding k_def by (rule round_half_even_bounds)
  then have "\<bar>real_of_int k - \<bar>x\<bar> / ulp x\<bar> * ulp x \<le> 1 / 2 * ulp x"
    using u by (simp add: mult_right_mono)
  moreover have "\<bar>real_of_int k - \<bar>x\<bar> / ulp x\<bar> * ulp x = \<bar>real_of_int k * ulp x - \<bar>x\<bar>\<bar>"
  proof -
    have "\<bar>real_of_int k - \<bar>x\<bar> / ulp x\<bar> * ulp x = \<bar>(real_of_int k - \<bar>x\<bar> / ulp x) * ulp x\<bar>"
      using u by (simp add: abs_mult)
    also have "(real_of_int k - \<bar>x\<bar> / ulp x) * ulp x = real_of_int k * ulp x - \<bar>x\<bar>"
      using u by (simp add: field_simps)
    finally show ?thesis .
  qed
  ultimately have *: "\<bar>real_of_int k * ulp x - \<bar>x\<bar>\<bar> \<le> ulp x / 2" by simp
  show ?thesis
  proof (cases "0 < x")
    case True
    then show ?thesis using * by (simp add: round_double_def k_def)
  next
    case neg: False
    with False have "x < 0" by simp
    then have "round_double x - x = - (real_of_int k * ulp x - \<bar>x\<bar>)"
      by (simp add: round_double_def k_def)
    then have "\<bar>round_double x - x\<bar> = \<bar>real_of_int k * ulp x - \<bar>x\<bar>\<bar>"
      by (simp only: abs_minus_cancel)
    then show ?thesis using * by (simp only:)
  qed
qed

lemma ulp_bound:
  assumes "x \<noteq> 0"
  shows "ulp x \<le> \<bar>x\<bar> / 2 ^ 52 + 1 / 2 ^ 1074"
proof (cases "- 1022 \<le> exponent x")
  case True
  then have "max (exponent x) (- 1022) = exponent x" by (simp only: max_def) simp
  then have u: "ulp x = 2 powi (exponent x - 52)" by (simp only: ulp_def)
  have "2 powi exponent x \<le> \<bar>x\<bar>" using assms by (rule exponent_bounds(1))
  moreover have "(2::real) ^ 52 * 2 powi (exponent x - 52) = 2 powi exponent x"
    by (rule two_power_52)
  ultimately have "2 ^ 52 * ulp x \<le> \<bar>x\<bar>" by (simp only: u)
  then have "ulp x \<le> \<bar>x\<bar> / 2 ^ 52" by (simp add: field_simps)
  then show ?thesis by (simp add: add_increasing2)
next
  case False
  then have "exponent x < - 1022" by simp
  then have "ulp x = 2 powi (- 1074)" by (simp add: ulp_def max_def)
  also have "\<dots> = 1 / 2 ^ 1074"
    by (simp add: power_int_minus_divide)
  finally show ?thesis by simp
qed

lemma round_double_zero [simp]: "round_double 0 = 0"
  by (simp add: round_double_def)

lemma round_double_rel: "\<bar>round_double x - x\<bar> \<le> \<bar>x\<bar> / 2 ^ 53 + 1 / 2 ^ 1075"
proof (cases "x = 0")
  case True
  then show ?thesis by simp
next
  case False
  then show ?thesis using round_double_error [of x] ulp_bound [of x] by simp
qed

lemmas round_defs = round_double_def ulp_def exponent_def compute_bitlen round_half_even_def
  Let_def

lemma round_double_pow2: "round_double (2 ^ n) = 2 ^ n"
proof -
  have p: "(2::real) ^ n = 2 powi int n" by (simp only: power_int_of_nat)
  have "2 powi int n \<le> \<bar>(2::real) powi int n\<bar>" by simp
  moreover have "\<bar>(2::real) powi int n\<bar> < 2 powi (int n + 1)"
    by (simp add: power_int_add)
  ultimately have e: "exponent (2 powi int n) = int n" by (rule exponent_unique)
  have m: "max (int n) (- 1022) = int n" by simp
  have u: "ulp (2 powi int n) = 2 powi (int n - 52)"
    by (simp only: ulp_def e m)
  have q: "(2::real) ^ 52 * 2 powi (int n - 52) = 2 powi int n" by (rule two_power_52)
  have "\<bar>(2::real) powi int n\<bar> / 2 powi (int n - 52) = 2 ^ 52"
    using q by (simp add: field_simps)
  also have "\<dots> = real_of_int (2 ^ 52)" by simp
  finally have "round_half_even (\<bar>(2::real) powi int n\<bar> / ulp (2 powi int n)) = 2 ^ 52"
    by (simp only: u round_half_even_of_int)
  then have "round_double (2 powi int n) = sgn (2 powi int n) * (real_of_int (2 ^ 52) * 2 powi (int n - 52))"
    by (simp only: round_double_def u)
  also have "\<dots> = 2 ^ 52 * 2 powi (int n - 52)" by simp
  also have "\<dots> = 2 powi int n" by (rule q)
  finally show ?thesis by (simp only: p)
qed

lemma round_double_abs_le:
  assumes "\<bar>x\<bar> \<le> 2 ^ n"
  shows "\<bar>round_double x\<bar> \<le> 2 ^ n"
proof (cases "0 \<le> x")
  case True
  then have "0 \<le> round_double x" by (rule round_double_nonneg)
  moreover have "round_double x \<le> round_double (2 ^ n)"
    using assms True by (intro round_double_mono) simp
  ultimately show ?thesis by (simp add: round_double_pow2)
next
  case False
  then have "0 \<le> - x" by simp
  then have "0 \<le> round_double (- x)" by (rule round_double_nonneg)
  moreover have "round_double (- x) \<le> round_double (2 ^ n)"
    using assms False by (intro round_double_mono) simp
  ultimately show ?thesis by (simp add: round_double_pow2 round_double_minus)
qed

lemma to_float_Fin:
  assumes "\<bar>x\<bar> \<le> 2 ^ n" and "n \<le> 1023"
  shows "to_float x = Fin (round_double x) \<and> \<bar>round_double x\<bar> \<le> 2 ^ n"
proof -
  have b: "\<bar>round_double x\<bar> \<le> 2 ^ n" using assms(1) by (rule round_double_abs_le)
  also have "(2::real) ^ n \<le> 2 ^ 1023"
    using assms(2) by (intro power_increasing) simp_all
  finally have "\<bar>round_double x\<bar> < 2 ^ 1024" by simp
  then have "- (2 ^ 1024) < round_double x" "round_double x < 2 ^ 1024"
    by (simp_all only: abs_less_iff) simp
  then have "to_float x = Fin (round_double x)"
    by (simp add: to_float_def Let_def not_le)
  with b show ?thesis by (simp only: simp_thms)
qed

lemma to_float_25_4: "to_float (25 / 4) = Fin (25 / 4)"
  by (simp add: to_float_def round_defs)

subsection \<open>The basal metabolic rate\<close>

text \<open>The chain of roundings of \<open>calculate_bmr\<close> on finite inputs that cannot overflow.\<close>

lemma calculate_bmr_fl_finite:
  assumes "\<bar>w\<bar> \<le> 2 ^ 1000" "\<bar>h\<bar> \<le> 2 ^ 1000" "\<bar>real_of_int a\<bar> \<le> 2 ^ 1000"
  shows "calculate_bmr_fl (Fin w) (Fin h) a g =
           Inr (Fin (round_double
                  (round_double
                     (round_double (round_double (10 * w) + round_double (25 / 4 * h))
                      - round_double (of_int (5 * a)))
                   + (if g = ''male'' then 5 else - 161))))"
proof -
  define t1 where "t1 = round_double (10 * w)"
  define t2 where "t2 = round_double (25 / 4 * h)"
  define a5 where "a5 = round_double (of_int (5 * a))"
  define s where "s = round_double (t1 + t2)"
  define d where "d = round_double (s - a5)"
  have b1: "\<bar>10 * w\<bar> \<le> 2 ^ 1004" using assms(1) by simp
  have t1: "to_float (10 * w) = Fin t1 \<and> \<bar>t1\<bar> \<le> 2 ^ 1004"
    unfolding t1_def by (rule to_float_Fin [OF b1]) simp
  have b2: "\<bar>25 / 4 * h\<bar> \<le> 2 ^ 1004" using assms(2) by simp
  have t2: "to_float (25 / 4 * h) = Fin t2 \<and> \<bar>t2\<bar> \<le> 2 ^ 1004"
    unfolding t2_def by (rule to_float_Fin [OF b2]) simp
  have b3: "\<bar>real_of_int (5 * a)\<bar> \<le> 2 ^ 1004" using assms(3) by simp
  have a5: "to_float (of_int (5 * a)) = Fin a5 \<and> \<bar>a5\<bar> \<le> 2 ^ 1004"
    unfolding a5_def by (rule to_float_Fin [OF b3]) simp
  have b4: "\<bar>t1 + t2\<bar> \<le> 2 ^ 1005" using t1 t2 abs_triangle_ineq [of t1 t2] by simp
  have s: "to_float (t1 + t2) = Fin s \<and> \<bar>s\<bar> \<le> 2 ^ 1005"
    unfolding s_def by (rule to_float_Fin [OF b4]) simp
  have b5: "\<bar>s - a5\<bar> \<le> 2 ^ 1006" using s a5 abs_triangle_ineq4 [of s a5] by simp
  have d: "to_float (s - a5) = Fin d \<and> \<bar>d\<bar> \<le> 2 ^ 1006"
    unfolding d_def by (rule to_float_Fin [OF b5]) simp
  have b6: "\<bar>d + 5\<bar> \<le> 2 ^ 1007" and b7: "\<bar>d - 161\<bar> \<le> 2 ^ 1007" using d abs_triangle_ineq [of d 5] abs_triangle_ineq4 [of d 161] by simp_all
  have r: "to_float (d + 5) = Fin (round_double (d + 5))"
    "to_float (d - 161) = Fin (round_double (d - 161))"
    using to_float_Fin [OF b6] to_float_Fin [OF b7] by simp_all
  have f: "float_of_int (5 * a) = Inr (Fin a5)"
    by (simp only: float_of_int_def a5 [THEN conjunct1] pyfloat.case)
  have m1: "fl_mul (Fin 10) (Fin w) = Fin t1"
    by (simp only: fl_mul.simps t1 [THEN conjunct1])
  have m2: "fl_mul (to_float (25 / 4)) (Fin h) = Fin t2"
    by (simp only: to_float_25_4 fl_mul.simps t2 [THEN conjunct1])
  have m3: "fl_add (Fin t1) (Fin t2) = Fin s"
    by (simp only: fl_add.simps s [THEN conjunct1])
  have m4: "fl_sub (Fin s) (Fin a5) = Fin d"
    by (simp only: fl_sub_def fl_neg.simps fl_add.simps add_uminus_conv_diff d [THEN conjunct1])
  have m5: "fl_add (Fin d) (Fin 5) = Fin (round_double (d + 5))"
    by (simp only: fl_add.simps r)
  have m6: "fl_sub (Fin d) (Fin 161) = Fin (round_double (d + - 161))"
    by (simp only: fl_sub_def fl_neg.simps fl_add.simps add_uminus_conv_diff r)
  have "calculate_bmr_fl (Fin w) (Fin h) a g =
          Inr (Fin (round_double (d + (if g = ''male'' then 5 else - 161))))"
    by (simp only: calculate_bmr_fl_def f bind_exc_def sum.case m1 m2 m3 m4 m5 m6 Let_def
          if_distrib [of Fin] if_distrib [of round_double] if_distrib [of "(+) d"])
  then show ?thesis
    by (simp only: d_def s_def t1_def t2_def a5_def)
qed


lemma round_double_rel1: "\<bar>round_double x - x\<bar> \<le> (\<bar>x\<bar> + 1) / 2 ^ 53"
proof -
  have "(1::real) / 2 ^ 1075 \<le> 1 / 2 ^ 53"
    by (intro divide_left_mono power_increasing) simp_all
  then have "\<bar>round_double x - x\<bar> \<le> \<bar>x\<bar> / 2 ^ 53 + 1 / 2 ^ 53"
    using round_double_rel [of x] by linarith
  also have "\<dots> = (\<bar>x\<bar> + 1) / 2 ^ 53"
    by (rule add_divide_distrib [symmetric])
  finally show ?thesis .
qed

lemma round_double_approx:
  assumes "\<bar>x - v\<bar> \<le> d" and "\<bar>v\<bar> \<le> m"
  shows "\<bar>round_double x - v\<bar> \<le> d + (m + d + 1) / 2 ^ 53"
proof -
  have "\<bar>x\<bar> \<le> \<bar>v\<bar> + \<bar>x - v\<bar>" by simp
  then have "\<bar>x\<bar> + 1 \<le> m + d + 1" using assms by linarith
  then have "(\<bar>x\<bar> + 1) / 2 ^ 53 \<le> (m + d + 1) / 2 ^ 53" by (simp add: divide_right_mono)
  then have "\<bar>round_double x - x\<bar> \<le> (m + d + 1) / 2 ^ 53"
    using round_double_rel1 [of x] by linarith
  moreover have "\<bar>round_double x - v\<bar> \<le> \<bar>round_double x - x\<bar> + \<bar>x - v\<bar>" by simp
  ultimately show ?thesis using assms(1) by linarith
qed

lemma div53_mono: "a \<le> b \<Longrightarrow> a / 2 ^ 53 \<le> b / (2::real) ^ 53"
  by (simp add: divide_right_mono)

lemma div53_small: "0 \<le> a \<Longrightarrow> a / 2 ^ 53 \<le> a / (1000::real)"
  by (rule divide_left_mono) simp_all

lemma bmr_rounding_error:
  fixes W H A :: real
  assumes "0 \<le> W" "0 \<le> H" "0 \<le> A" and C: "C \<le> 161"
    and d1: "d1 = (10 * W + 1) / 2 ^ 53"
    and d2: "d2 = (25 / 4 * H + 1) / 2 ^ 53"
    and d3: "d3 = (d1 + d2) + (10 * W + 25 / 4 * H + (d1 + d2) + 1) / 2 ^ 53"
    and d4: "d4 = (5 * A + 1) / 2 ^ 53"
    and d5: "d5 = (d3 + d4) + (10 * W + 25 / 4 * H + 5 * A + (d3 + d4) + 1) / 2 ^ 53"
    and d6: "d6 = d5 + (10 * W + 25 / 4 * H + 5 * A + C + d5 + 1) / 2 ^ 53"
  shows "d6 \<le> (10 * W + 25 / 4 * H + 5 * A + 161) / 2 ^ 50"
proof -
  define S where "S = 10 * W + 25 / 4 * H + 5 * A + 161"
  define T where "T = S / 2 ^ 53"
  have S: "161 \<le> S" using assms(1-3) by (simp add: S_def)
  have T: "0 \<le> T" using S by (simp add: T_def)
  have T8: "T / 2 ^ 53 \<le> T / 1000" using T by (rule div53_small)
  have split: "(S + x) / 2 ^ 53 = T + x / 2 ^ 53" for x
    by (simp only: T_def add_divide_distrib)
  have "10 * W + 1 \<le> S" using assms(1-3) by (simp add: S_def)
  then have b1: "d1 \<le> T" unfolding d1 T_def by (rule div53_mono)
  have "25 / 4 * H + 1 \<le> S" using assms(1-3) by (simp add: S_def)
  then have b2: "d2 \<le> T" unfolding d2 T_def by (rule div53_mono)
  have "5 * A + 1 \<le> S" using assms(1-3) by (simp add: S_def)
  then have b4: "d4 \<le> T" unfolding d4 T_def by (rule div53_mono)
  have "10 * W + 25 / 4 * H + (d1 + d2) + 1 \<le> S + 2 * T"
    using assms(1-3) b1 b2 by (simp add: S_def)
  then have "(10 * W + 25 / 4 * H + (d1 + d2) + 1) / 2 ^ 53 \<le> (S + 2 * T) / 2 ^ 53"
    by (rule div53_mono)
  also have "\<dots> = T + 2 * (T / 2 ^ 53)" by (simp add: T_def add_divide_distrib)
  finally have b3: "d3 \<le> 3 * T + 2 * (T / 1000)" unfolding d3 using b1 b2 T8 T by linarith
  have "10 * W + 25 / 4 * H + 5 * A + (d3 + d4) + 1 \<le> S + 5 * T"
    unfolding S_def using b3 b4 T by linarith
  then have "(10 * W + 25 / 4 * H + 5 * A + (d3 + d4) + 1) / 2 ^ 53 \<le> (S + 5 * T) / 2 ^ 53"
    by (rule div53_mono)
  also have "\<dots> = T + 5 * (T / 2 ^ 53)" by (simp add: T_def add_divide_distrib)
  finally have b5: "d5 \<le> 5 * T + 7 * (T / 1000)" unfolding d5 using b3 b4 T8 T by linarith
  have "10 * W + 25 / 4 * H + 5 * A + C + d5 + 1 \<le> S + (S / 161 + 7 * T)"
  proof -
    have "1 \<le> S / 161" using S by simp
    moreover have "10 * W + 25 / 4 * H + 5 * A + 161 = S" by (simp only: S_def)
    ultimately show ?thesis using b5 T C by linarith
  qed
  then have "(10 * W + 25 / 4 * H + 5 * A + C + d5 + 1) / 2 ^ 53 \<le> (S + (S / 161 + 7 * T)) / 2 ^ 53"
    by (rule div53_mono)
  also have "\<dots> = T + (T / 161 + 7 * (T / 2 ^ 53))" by (simp add: T_def add_divide_distrib)
  finally have "d6 \<le> 8 * T" unfolding d6 using b5 T8 T by linarith
  also have "8 * T = S / 2 ^ 50" by (simp add: T_def)
  finally show ?thesis by (simp only: S_def)
qed


lemma bmr_chain_close:
  fixes w h c :: real and a :: int
  assumes "\<bar>c\<bar> \<le> 161"
  shows "\<bar>round_double
            (round_double
               (round_double (round_double (10 * w) + round_double (25 / 4 * h))
                - round_double (of_int (5 * a)))
             + c)
          - (10 * w + 25 / 4 * h - 5 * of_int a + c)\<bar>
       \<le> (10 * \<bar>w\<bar> + 25 / 4 * \<bar>h\<bar> + 5 * \<bar>of_int a\<bar> + 161) / 2 ^ 50"
proof -
  define W where "W = \<bar>w\<bar>"
  define H where "H = \<bar>h\<bar>"
  define A where "A = \<bar>real_of_int a\<bar>"
  define t1 where "t1 = round_double (10 * w)"
  define t2 where "t2 = round_double (25 / 4 * h)"
  define a5 where "a5 = round_double (of_int (5 * a))"
  define s where "s = round_double (t1 + t2)"
  define d where "d = round_double (s - a5)"
  define d1 where "d1 = (10 * W + 1) / 2 ^ 53"
  define d2 where "d2 = (25 / 4 * H + 1) / 2 ^ 53"
  define d3 where "d3 = (d1 + d2) + (10 * W + 25 / 4 * H + (d1 + d2) + 1) / 2 ^ 53"
  define d4 where "d4 = (5 * A + 1) / 2 ^ 53"
  define d5 where "d5 = (d3 + d4) + (10 * W + 25 / 4 * H + 5 * A + (d3 + d4) + 1) / 2 ^ 53"
  define d6 where "d6 = d5 + (10 * W + 25 / 4 * H + 5 * A + \<bar>c\<bar> + d5 + 1) / 2 ^ 53"
  have pos: "0 \<le> W" "0 \<le> H" "0 \<le> A" by (simp_all add: W_def H_def A_def)
  have e1: "\<bar>t1 - 10 * w\<bar> \<le> d1"
    using round_double_approx [of "10 * w" "10 * w" 0 "10 * W"]
    by (simp add: t1_def d1_def W_def)
  have e2: "\<bar>t2 - 25 / 4 * h\<bar> \<le> d2"
    using round_double_approx [of "25 / 4 * h" "25 / 4 * h" 0 "25 / 4 * H"]
    by (simp add: t2_def d2_def H_def)
  have e4: "\<bar>a5 - 5 * of_int a\<bar> \<le> d4"
    using round_double_approx [of "of_int (5 * a)" "of_int (5 * a)" 0 "5 * A"]
    by (simp add: a5_def d4_def A_def)
  have "\<bar>(t1 + t2) - (10 * w + 25 / 4 * h)\<bar> \<le> d1 + d2"
    using e1 e2 by linarith
  moreover have "\<bar>10 * w + 25 / 4 * h\<bar> \<le> 10 * W + 25 / 4 * H"
    unfolding W_def H_def by linarith
  ultimately have e3: "\<bar>s - (10 * w + 25 / 4 * h)\<bar> \<le> d3"
    unfolding s_def d3_def by (rule round_double_approx)
  have "\<bar>(s - a5) - (10 * w + 25 / 4 * h - 5 * of_int a)\<bar> \<le> d3 + d4"
    using e3 e4 by linarith
  moreover have "\<bar>10 * w + 25 / 4 * h - 5 * of_int a\<bar> \<le> 10 * W + 25 / 4 * H + 5 * A"
    unfolding W_def H_def A_def by linarith
  ultimately have e5: "\<bar>d - (10 * w + 25 / 4 * h - 5 * of_int a)\<bar> \<le> d5"
    unfolding d_def d5_def by (rule round_double_approx)
  have "\<bar>(d + c) - (10 * w + 25 / 4 * h - 5 * of_int a + c)\<bar> \<le> d5"
    using e5 by linarith
  moreover have "\<bar>10 * w + 25 / 4 * h - 5 * of_int a + c\<bar> \<le> 10 * W + 25 / 4 * H + 5 * A + \<bar>c\<bar>"
    unfolding W_def H_def A_def by linarith
  ultimately have "\<bar>round_double (d + c) - (10 * w + 25 / 4 * h - 5 * of_int a + c)\<bar> \<le> d6"
    unfolding d6_def by (rule round_double_approx)
  also have "d6 \<le> (10 * W + 25 / 4 * H + 5 * A + 161) / 2 ^ 50"
    by (rule bmr_rounding_error [OF pos assms d1_def d2_def d3_def d4_def d5_def d6_def])
  finally show ?thesis
    by (simp only: d_def s_def t1_def t2_def a5_def W_def H_def A_def)
qed

subsection \<open>C8: the basal metabolic rate against the weight and the height\<close>

text \<open>
  Claim C8 says that \<open>calculate_bmr\<close> is strictly increasing in the weight and in the
  height, for every pair of inputs that differ in that coordinate only. On doubles that
  fails: 70 kg and the next double, \<open>70 + 2^-46\<close>, give the same 1648.75 at 175 cm, age 30,
  male (the product \<open>10 * weight_kg\<close> differs by one spacing, which the sum with
  \<open>6.25 * height_cm\<close> rounds away), and so do 175 cm and the next double at 200 kg.
\<close>

theorem bmr_strict_counterexample:
  "is_double 70 \<and> is_double (70 + 1 / 2 ^ 46) \<and> is_double 175 \<and> (70::real) < 70 + 1 / 2 ^ 46
   \<and> calculate_bmr_fl (Fin 70) (Fin 175) 30 ''male'' = Inr (Fin (6595 / 4))
   \<and> calculate_bmr_fl (Fin (70 + 1 / 2 ^ 46)) (Fin 175) 30 ''male'' = Inr (Fin (6595 / 4))
   \<and> is_double 200 \<and> is_double (175 + 1 / 2 ^ 45) \<and> (175::real) < 175 + 1 / 2 ^ 45
   \<and> calculate_bmr_fl (Fin 200) (Fin 175) 30 ''male'' = Inr (Fin (11795 / 4))
   \<and> calculate_bmr_fl (Fin 200) (Fin (175 + 1 / 2 ^ 45)) 30 ''male'' = Inr (Fin (11795 / 4))"
  by (simp add: is_double_def calculate_bmr_fl_def float_of_int_def bind_exc_def fl_sub_def
        to_float_def round_defs)


text \<open>
  Claim C8 as amended. On finite inputs of magnitude at most \<open>10^300\<close>, \<open>calculate_bmr\<close>
  returns a finite float, which is the Mifflin-St Jeor formula
  \<open>10*weight_kg + 6.25*height_cm - 5*age + (5 if male else -161)\<close> up to the rounding of
  its five operations, a relative error of \<open>2^-50\<close>, and it is non-decreasing in the weight
  for a fixed height, age and gender, and non-decreasing in the height for a fixed
  weight, age and gender.
\<close>

theorem calculate_bmr_nondecreasing:
  assumes "\<bar>w\<bar> \<le> 10 ^ 300" "\<bar>w'\<bar> \<le> 10 ^ 300" "\<bar>h\<bar> \<le> 10 ^ 300" "\<bar>h'\<bar> \<le> 10 ^ 300"
    and "\<bar>a\<bar> \<le> 10 ^ 300"
  shows "\<exists>b. calculate_bmr_fl (Fin w) (Fin h) a g = Inr (Fin b)
           \<and> \<bar>b - mifflin_st_jeor w h a (g = ''male'')\<bar>
               \<le> (10 * \<bar>w\<bar> + 25 / 4 * \<bar>h\<bar> + 5 * \<bar>of_int a\<bar> + 161) / 2 ^ 50
           \<and> (w \<le> w' \<longrightarrow>
                 (\<exists>b'. calculate_bmr_fl (Fin w') (Fin h) a g = Inr (Fin b') \<and> b \<le> b'))
           \<and> (h \<le> h' \<longrightarrow>
                 (\<exists>b'. calculate_bmr_fl (Fin w) (Fin h') a g = Inr (Fin b') \<and> b \<le> b'))"
proof -
  define c :: real where "c = (if g = ''male'' then 5 else - 161)"
  define f where "f = (\<lambda>x y. round_double
                  (round_double
                     (round_double (round_double (10 * x) + round_double (25 / 4 * y))
                      - round_double (of_int (5 * a)))
                   + c))"
  have k: "(10::real) ^ 300 \<le> 2 ^ 1000" by simp
  have w: "\<bar>w\<bar> \<le> 2 ^ 1000" and w': "\<bar>w'\<bar> \<le> 2 ^ 1000"
    and h: "\<bar>h\<bar> \<le> 2 ^ 1000" and h': "\<bar>h'\<bar> \<le> 2 ^ 1000"
    using assms(1-4) k by linarith+
  have "real_of_int \<bar>a\<bar> \<le> real_of_int (10 ^ 300)"
    using assms(5) by (simp only: of_int_le_iff)
  then have "\<bar>real_of_int a\<bar> \<le> 10 ^ 300" by simp
  then have a: "\<bar>real_of_int a\<bar> \<le> 2 ^ 1000" using k by linarith
  have eq: "calculate_bmr_fl (Fin x) (Fin y) a g = Inr (Fin (f x y))"
    if "\<bar>x\<bar> \<le> 2 ^ 1000" "\<bar>y\<bar> \<le> 2 ^ 1000" for x y
    unfolding f_def c_def by (rule calculate_bmr_fl_finite [OF that a])
  have "\<bar>c\<bar> \<le> 161" by (simp add: c_def)
  then have "\<bar>f w h - (10 * w + 25 / 4 * h - 5 * of_int a + c)\<bar>
      \<le> (10 * \<bar>w\<bar> + 25 / 4 * \<bar>h\<bar> + 5 * \<bar>of_int a\<bar> + 161) / 2 ^ 50"
    unfolding f_def by (rule bmr_chain_close)
  moreover have "10 * w + 25 / 4 * h - 5 * of_int a + c = mifflin_st_jeor w h a (g = ''male'')"
    by (simp add: mifflin_st_jeor_def c_def)
  ultimately have close: "\<bar>f w h - mifflin_st_jeor w h a (g = ''male'')\<bar>
      \<le> (10 * \<bar>w\<bar> + 25 / 4 * \<bar>h\<bar> + 5 * \<bar>of_int a\<bar> + 161) / 2 ^ 50"
    by (simp only:)
  have mono: "f x y \<le> f x' y'" if "x \<le> x'" "y \<le> y'" for x y x' y'
    unfolding f_def using that
    by (intro round_double_mono add_mono diff_mono order_refl) simp_all
  have 1: "\<exists>b'. calculate_bmr_fl (Fin w') (Fin h) a g = Inr (Fin b') \<and> f w h \<le> b'" if "w \<le> w'"
    using eq [OF w' h] mono [OF that order_refl [of h]] by simp
  have 2: "\<exists>b'. calculate_bmr_fl (Fin w) (Fin h') a g = Inr (Fin b') \<and> f w h \<le> b'" if "h \<le> h'"
    using eq [OF w h'] mono [OF order_refl [of w] that] by simp
  show ?thesis
    using eq [OF w h] close 1 2 by blast
qed

text \<open>
  At 70 kg, 175 cm, age 30, male, against 71 kg and against 180 cm; the error bound is
  below \<open>2^-30\<close> there.
\<close>

theorem calculate_bmr_nondecreasing_witness:
  "\<bar>70::real\<bar> \<le> 10 ^ 300 \<and> \<bar>71::real\<bar> \<le> 10 ^ 300 \<and> \<bar>175::real\<bar> \<le> 10 ^ 300
   \<and> \<bar>180::real\<bar> \<le> 10 ^ 300 \<and> \<bar>30::int\<bar> \<le> 10 ^ 300 \<and> (70::real) \<le> 71 \<and> (175::real) \<le> 180
   \<and> (\<exists>b. calculate_bmr_fl (Fin 70) (Fin 175) 30 ''male'' = Inr (Fin b)
          \<and> \<bar>b - mifflin_st_jeor 70 175 30 True\<bar> \<le> 1 / 2 ^ 30
          \<and> (\<exists>b'. calculate_bmr_fl (Fin 71) (Fin 175) 30 ''male'' = Inr (Fin b') \<and> b \<le> b')
          \<and> (\<exists>b'. calculate_bmr_fl (Fin 70) (Fin 180) 30 ''male'' = Inr (Fin b') \<and> b \<le> b'))"
proof -
  have h1: "\<bar>70::real\<bar> \<le> 10 ^ 300" "\<bar>71::real\<bar> \<le> 10 ^ 300" "\<bar>175::real\<bar> \<le> 10 ^ 300"
    "\<bar>180::real\<bar> \<le> 10 ^ 300" by simp_all
  have h2: "\<bar>30::int\<bar> \<le> 10 ^ 300" by simp
  have h3: "(70::real) \<le> 71" "(175::real) \<le> 180" by simp_all
  from calculate_bmr_nondecreasing [OF h1 h2, of "''male''"]
  obtain b where
    b: "calculate_bmr_fl (Fin 70) (Fin 175) 30 ''male'' = Inr (Fin b)" and
    c: "\<bar>b - mifflin_st_jeor 70 175 30 (''male'' = ''male'')\<bar>
          \<le> (10 * \<bar>70\<bar> + 25 / 4 * \<bar>175\<bar> + 5 * \<bar>of_int 30\<bar> + 161) / 2 ^ 50" and
    m1: "70 \<le> (71::real) \<longrightarrow>
           (\<exists>b'. calculate_bmr_fl (Fin 71) (Fin 175) 30 ''male'' = Inr (Fin b') \<and> b \<le> b')" and
    m2: "175 \<le> (180::real) \<longrightarrow>
           (\<exists>b'. calculate_bmr_fl (Fin 70) (Fin 180) 30 ''male'' = Inr (Fin b') \<and> b \<le> b')"
    by blast
  have "(10 * \<bar>70\<bar> + 25 / 4 * \<bar>175\<bar> + 5 * \<bar>of_int 30\<bar> + 161) / 2 ^ 50 \<le> (1::real) / 2 ^ 30"
    by simp
  with c have c': "\<bar>b - mifflin_st_jeor 70 175 30 True\<bar> \<le> 1 / 2 ^ 30" by simp
  show ?thesis
    using h1 h2 h3 b c' m1 [THEN mp, OF h3(1)] m2 [THEN mp, OF h3(2)] by blast
qed

section \<open>Properties of the validator\<close>

subsection \<open>The three lists through the checks\<close>

lemma nonzero_SomeD: "nonzero x = Some v \<Longrightarrow> x = Some v \<and> v \<noteq> 0"
  by (cases x) (auto split: if_splits)

lemmas add_defs = add_error_def add_warning_def add_suggestion_def

lemma errs_add [simp]:
  "errs (add_error e a) = errs a @ [e]"
  "errs (add_warning w a) = errs a"
  "errs (add_suggestion s a) = errs a"
  by (simp_all add: add_defs)

lemma warns_add [simp]:
  "warns (add_error e a) = warns a"
  "warns (add_warning w a) = warns a @ [w]"
  "warns (add_suggestion s a) = warns a"
  by (simp_all add: add_defs)

lemma suggs_add [simp]:
  "suggs (add_error e a) = suggs a"
  "suggs (add_warning w a) = suggs a"
  "suggs (add_suggestion s a) = suggs a @ [s]"
  by (simp_all add: add_defs)

text \<open>What each check leaves alone.\<close>

lemma check_vegetarian_warns [simp]: "warns (check_vegetarian dr ff a) = warns a"
  by (simp add: check_vegetarian_def Let_def)

lemma check_vegan_warns [simp]: "warns (check_vegan dr ff a) = warns a"
  by (simp add: check_vegan_def Let_def)

lemma check_gluten_free_errs [simp]: "errs (check_gluten_free dr ff a) = errs a"
  by (simp add: check_gluten_free_def Let_def)

lemma check_dairy_free_errs [simp]: "errs (check_dairy_free dr ff a) = errs a"
  by (simp add: check_dairy_free_def Let_def)

lemma check_gluten_free_suggs [simp]: "suggs (check_gluten_free dr ff a) = suggs a"
  by (simp add: check_gluten_free_def Let_def)

lemma check_dairy_free_suggs [simp]: "suggs (check_dairy_free dr ff a) = suggs a"
  by (simp add: check_dairy_free_def Let_def)

lemma check_macro_mismatch_warns [simp]: "warns (check_macro_mismatch c p f cb a) = warns a"
  by (simp add: check_macro_mismatch_def Let_def)

lemma check_macro_mismatch_suggs [simp]: "suggs (check_macro_mismatch c p f cb a) = suggs a"
  by (simp add: check_macro_mismatch_def Let_def)

lemma check_protein_range_errs [simp]: "errs (check_protein_range k a) = errs a"
  by (simp add: check_protein_range_def)

lemma check_protein_range_suggs [simp]: "suggs (check_protein_range k a) = suggs a"
  by (simp add: check_protein_range_def)

lemma check_difficult_target_errs [simp]: "errs (check_difficult_target dr p a) = errs a"
  by (simp add: check_difficult_target_def)

lemma check_difficult_target_suggs [simp]: "suggs (check_difficult_target dr p a) = suggs a"
  by (simp add: check_difficult_target_def)

lemma check_goal_errs [simp]: "errs (check_goal g tc w a) = errs a"
  by (simp add: check_goal_def split: option.splits)

lemma check_goal_suggs [simp]: "suggs (check_goal g tc w a) = suggs a"
  by (simp add: check_goal_def split: option.splits)

lemma check_counts_errs [simp]: "errs (check_counts dr fa a) = errs a"
  by (simp add: check_counts_def Let_def)

lemma check_counts_suggs [simp]: "suggs (check_counts dr fa a) = suggs a"
  by (simp add: check_counts_def Let_def)

text \<open>Warnings are only ever appended.\<close>

lemma check_protein_range_warns_mono: "set (warns a) \<subseteq> set (warns (check_protein_range k a))"
  by (auto simp: check_protein_range_def)

lemma check_difficult_target_warns_mono:
  "set (warns a) \<subseteq> set (warns (check_difficult_target dr p a))"
  by (auto simp: check_difficult_target_def)

lemma check_goal_warns_mono: "set (warns a) \<subseteq> set (warns (check_goal g tc w a))"
  by (auto simp: check_goal_def split: option.splits)

lemma check_counts_warns_mono: "set (warns a) \<subseteq> set (warns (check_counts dr fa a))"
  by (auto simp: check_counts_def Let_def)

text \<open>The block of line 143 when the four targets count as true, and when one does not.\<close>

lemma check_macro_targets_present:
  assumes "c \<noteq> 0" "p \<noteq> 0" "f \<noteq> 0" "cb \<noteq> 0"
  shows "check_macro_targets dr (Some c) (Some p) (Some f) (Some cb) w a =
           Inr (check_difficult_target dr p
                  (case nonzero w of
                     None \<Rightarrow> check_macro_mismatch c p f cb a
                   | Some wk \<Rightarrow> check_protein_range (p / wk) (check_macro_mismatch c p f cb a)))"
  using assms
  by (auto simp: check_macro_targets_def py_truediv_def Let_def
           split: option.splits dest: nonzero_SomeD)

lemma check_macro_targets_absent:
  assumes "nonzero tc = None \<or> nonzero tp = None \<or> nonzero tf = None \<or> nonzero tcb = None"
  shows "check_macro_targets dr tc tp tf tcb w a = Inr a"
  using assms by (auto simp: check_macro_targets_def split: option.splits)

lemma check_macro_targets_cases:
  obtains (absent) "nonzero tc = None \<or> nonzero tp = None \<or> nonzero tf = None \<or> nonzero tcb = None"
  | (present) c p f cb where "tc = Some c" "tp = Some p" "tf = Some f" "tcb = Some cb"
      "c \<noteq> 0" "p \<noteq> 0" "f \<noteq> 0" "cb \<noteq> 0"
proof (cases "nonzero tc = None \<or> nonzero tp = None \<or> nonzero tf = None \<or> nonzero tcb = None")
  case True
  then show thesis by (rule absent)
next
  case False
  then obtain c p f cb where
    "nonzero tc = Some c" "nonzero tp = Some p" "nonzero tf = Some f" "nonzero tcb = Some cb"
    by auto
  then have "tc = Some c" "tp = Some p" "tf = Some f" "tcb = Some cb"
    "c \<noteq> 0" "p \<noteq> 0" "f \<noteq> 0" "cb \<noteq> 0"
    using nonzero_SomeD by blast+
  then show thesis by (rule present)
qed

lemma check_macro_targets_Inr: "\<exists>a'. check_macro_targets dr tc tp tf tcb w a = Inr a'"
proof (cases rule: check_macro_targets_cases [of tc tp tf tcb])
  case absent
  then show ?thesis by (simp add: check_macro_targets_absent)
next
  case present
  then show ?thesis by (simp add: check_macro_targets_present)
qed

lemma collect_findings_Inr:
  "\<exists>a. collect_findings dr fa ff tc tp tf tcb w g = Inr a"
proof -
  obtain a' where "check_macro_targets (lowered dr) tc tp tf tcb w
      (check_dairy_free (lowered dr) (lowered ff) (check_gluten_free (lowered dr) (lowered ff)
         (check_vegan (lowered dr) (lowered ff) (check_vegetarian (lowered dr) (lowered ff)
            \<lparr> errs = [], warns = [], suggs = [] \<rparr>)))) = Inr a'"
    using check_macro_targets_Inr by blast
  then show ?thesis by (simp add: collect_findings_def Let_def)
qed

lemma validate_collect:
  "collect_findings dr fa ff tc tp tf tcb w g = Inr a \<Longrightarrow>
   validate_consultation_data dr fa ff tc tp tf tcb w g = Inr (compile_results a)"
  by (simp add: validate_consultation_data_def)

lemma compile_results_status:
  "status (compile_results a) =
     (if errs a \<noteq> [] then ''error'' else if warns a \<noteq> [] then ''warning'' else ''success'')"
  by (simp add: compile_results_def Let_def)

lemma compile_results_valid: "valid (compile_results a) \<longleftrightarrow> errs a = []"
  by (simp add: compile_results_def Let_def)

lemma compile_results_suggestions:
  "suggestions (compile_results a) =
     (if errs a \<noteq> [] then None else if suggs a \<noteq> [] then Some (suggs a) else None)"
  by (simp add: compile_results_def Let_def)

lemmas validator_defs = validate_consultation_data_def collect_findings_def lowered_def lower_def
  lower_char_def check_vegetarian_def check_vegan_def check_gluten_free_def check_dairy_free_def
  check_macro_targets_def check_macro_mismatch_def check_protein_range_def
  check_difficult_target_def check_goal_def check_counts_def compile_results_def matching_def
  MEAT_FOODS_def ANIMAL_PRODUCTS_def SEAFOOD_def GLUTEN_FOODS_def DAIRY_FOODS_def
  add_error_def add_warning_def add_suggestion_def py_truediv_def Let_def

subsection \<open>C5: errors before warnings before success\<close>

text \<open>
  Claim C5. Every call of \<open>validate_consultation_data\<close> returns a dictionary whose
  status is "error" if an error finding was accumulated, otherwise "warning" if a warning
  finding was accumulated, otherwise "success"; \<open>valid\<close> is false exactly when the
  status is "error"; the suggestions do not change the status; and a call that
  accumulates both an error and a warning reports "error".
\<close>

theorem validate_status_precedence:
  "\<exists>a r. collect_findings dr fa ff tc tp tf tcb w g = Inr a
     \<and> validate_consultation_data dr fa ff tc tp tf tcb w g = Inr r
     \<and> status r = (if errs a \<noteq> [] then ''error''
                   else if warns a \<noteq> [] then ''warning'' else ''success'')
     \<and> (valid r \<longleftrightarrow> status r \<noteq> ''error'')
     \<and> (\<forall>s. status (compile_results (a\<lparr>suggs := s\<rparr>)) = status r)
     \<and> (errs a \<noteq> [] \<and> warns a \<noteq> [] \<longrightarrow> status r = ''error'')"
proof -
  obtain a where a: "collect_findings dr fa ff tc tp tf tcb w g = Inr a"
    using collect_findings_Inr by blast
  show ?thesis
    using a validate_collect [OF a]
    by (auto simp: compile_results_status compile_results_valid)
qed

text \<open>
  A vegetarian, gluten-free user whose favourites are beef and bread: one error
  and one warning, and the status is "error".
\<close>

theorem validate_status_precedence_witness:
  "\<exists>a r. collect_findings (Some [''vegetarian'', ''gluten_free'']) None (Some [''beef'', ''bread''])
            None None None None None None = Inr a
     \<and> validate_consultation_data (Some [''vegetarian'', ''gluten_free'']) None
          (Some [''beef'', ''bread'']) None None None None None None = Inr r
     \<and> length (errs a) = 1 \<and> length (warns a) = 1
     \<and> status r = ''error'' \<and> \<not> valid r"
proof -
  have c: "\<exists>a. collect_findings (Some [''vegetarian'', ''gluten_free'']) None
            (Some [''beef'', ''bread'']) None None None None None None = Inr a
          \<and> length (errs a) = 1 \<and> length (warns a) = 1"
    by (simp add: validator_defs)
  from validate_status_precedence [of "Some [''vegetarian'', ''gluten_free'']" None
      "Some [''beef'', ''bread'']" None None None None None None] c
  show ?thesis
    by (metis Inr_inject length_0_conv zero_neq_one)
qed

subsection \<open>C9: an error result carries no suggestions\<close>

text \<open>
  Claim C9. A result of \<open>validate_consultation_data\<close> whose status is "error" has no
  \<open>suggestions\<close> key, whatever suggestions the call accumulated; a result that has the
  key has status "warning" or "success", and on those two paths the key holds the
  accumulated suggestions when there are any.
\<close>

theorem validate_error_drops_suggestions:
  assumes "validate_consultation_data dr fa ff tc tp tf tcb w g = Inr r"
  shows "(status r = ''error'' \<longrightarrow> suggestions r = None)
       \<and> (\<forall>s. suggestions r = Some s \<longrightarrow> status r = ''warning'' \<or> status r = ''success'')
       \<and> (\<exists>a. collect_findings dr fa ff tc tp tf tcb w g = Inr a
              \<and> (status r \<noteq> ''error'' \<longrightarrow>
                   suggestions r = (if suggs a \<noteq> [] then Some (suggs a) else None)))"
proof -
  obtain a where a: "collect_findings dr fa ff tc tp tf tcb w g = Inr a"
    using collect_findings_Inr by blast
  from validate_collect [OF a] assms have r: "r = compile_results a" by simp
  show ?thesis
    using a by (auto simp: r compile_results_status compile_results_suggestions split: if_splits)
qed

text \<open>
  A vegetarian whose favourites are salmon and beef: the pescatarian suggestion is
  accumulated, the beef is an error, and the result has no suggestions. A vegan with
  2000 kcal, 200 g protein, 60 g fat and 165 g carbohydrates: a warning, with the
  accumulated suggestion attached.
\<close>

theorem validate_error_drops_suggestions_witness:
  "validate_consultation_data (Some [''Vegetarian'']) None (Some [''Salmon'', ''Beef''])
       None None None None None None =
     Inr \<lparr> status = ''error'', valid = False,
           errors = Some [\<lparr> type = ''dietary_contradiction'', severity = ''high'',
                            issue = [Lit ''User is vegetarian but lists meat as favorites: beef''],
                            resolution = [Lit ''Ask user to clarify: Do you want vegetarian recipes, or would you like to include meat?''] \<rparr>],
           error_count = Some 1,
           suggested_resolution = Some [Lit ''Ask user to clarify: Do you want vegetarian recipes, or would you like to include meat?''],
           warnings = None, warning_count = None, suggestions = None,
           message = [Lit ''Found '', IntStr 1, Lit '' critical contradiction(s): '',
                      Lit ''User is vegetarian but lists meat as favorites: beef''] \<rparr>
   \<and> (\<exists>a. collect_findings (Some [''Vegetarian'']) None (Some [''Salmon'', ''Beef''])
              None None None None None None = Inr a
          \<and> length (suggs a) = 1)
   \<and> (\<exists>r a s. validate_consultation_data (Some [''vegan'']) None None
                  (Some 2000) (Some 200) (Some 60) (Some 165) None None = Inr r
          \<and> collect_findings (Some [''vegan'']) None None
                  (Some 2000) (Some 200) (Some 60) (Some 165) None None = Inr a
          \<and> status r = ''warning'' \<and> suggestions r = Some s \<and> s = suggs a)"
proof -
  have v: "validate_consultation_data (Some [''Vegetarian'']) None (Some [''Salmon'', ''Beef''])
       None None None None None None =
     Inr \<lparr> status = ''error'', valid = False,
           errors = Some [\<lparr> type = ''dietary_contradiction'', severity = ''high'',
                            issue = [Lit ''User is vegetarian but lists meat as favorites: beef''],
                            resolution = [Lit ''Ask user to clarify: Do you want vegetarian recipes, or would you like to include meat?''] \<rparr>],
           error_count = Some 1,
           suggested_resolution = Some [Lit ''Ask user to clarify: Do you want vegetarian recipes, or would you like to include meat?''],
           warnings = None, warning_count = None, suggestions = None,
           message = [Lit ''Found '', IntStr 1, Lit '' critical contradiction(s): '',
                      Lit ''User is vegetarian but lists meat as favorites: beef''] \<rparr>"
    by (simp add: validator_defs)
  have c: "\<exists>a. collect_findings (Some [''Vegetarian'']) None (Some [''Salmon'', ''Beef''])
              None None None None None None = Inr a
          \<and> length (suggs a) = 1"
    by (simp add: validator_defs)
  have w: "\<exists>r. validate_consultation_data (Some [''vegan'']) None None
                  (Some 2000) (Some 200) (Some 60) (Some 165) None None = Inr r
          \<and> status r = ''warning'' \<and> suggestions r \<noteq> None"
    by (simp add: validator_defs)
  then obtain r where r: "validate_consultation_data (Some [''vegan'']) None None
                  (Some 2000) (Some 200) (Some 60) (Some 165) None None = Inr r"
      and rs: "status r = ''warning''" "suggestions r \<noteq> None"
    by blast
  from validate_error_drops_suggestions [OF r] rs
  have "\<exists>a s. collect_findings (Some [''vegan'']) None None
                  (Some 2000) (Some 200) (Some 60) (Some 165) None None = Inr a
          \<and> suggestions r = Some s \<and> s = suggs a"
    by (auto split: if_splits)
  with r rs have "\<exists>r a s. validate_consultation_data (Some [''vegan'']) None None
                  (Some 2000) (Some 200) (Some 60) (Some 165) None None = Inr r
          \<and> collect_findings (Some [''vegan'']) None None
                  (Some 2000) (Some 200) (Some 60) (Some 165) None None = Inr a
          \<and> status r = ''warning'' \<and> suggestions r = Some s \<and> s = suggs a"
    by blast
  with validate_error_drops_suggestions [OF v] v c show ?thesis
    by simp
qed

subsection \<open>The numeric block when the four targets count as true\<close>

lemma collect_findings_present:
  assumes "c \<noteq> 0" "p \<noteq> 0" "f \<noteq> 0" "cb \<noteq> 0"
  shows "collect_findings dr fa ff (Some c) (Some p) (Some f) (Some cb) w g =
     Inr (check_counts (lowered dr) (lowered fa)
            (check_goal g (Some c) w
               (check_difficult_target (lowered dr) p
                  (case nonzero w of
                     None \<Rightarrow>
                       check_macro_mismatch c p f cb
                         (check_dairy_free (lowered dr) (lowered ff)
                            (check_gluten_free (lowered dr) (lowered ff)
                               (check_vegan (lowered dr) (lowered ff)
                                  (check_vegetarian (lowered dr) (lowered ff)
                                     \<lparr> errs = [], warns = [], suggs = [] \<rparr>))))
                   | Some wk \<Rightarrow>
                       check_protein_range (p / wk)
                         (check_macro_mismatch c p f cb
                            (check_dairy_free (lowered dr) (lowered ff)
                               (check_gluten_free (lowered dr) (lowered ff)
                                  (check_vegan (lowered dr) (lowered ff)
                                     (check_vegetarian (lowered dr) (lowered ff)
                                        \<lparr> errs = [], warns = [], suggs = [] \<rparr>)))))))))"
  by (simp add: collect_findings_def Let_def check_macro_targets_present [OF assms])

lemma check_difficult_target_fires:
  assumes "''vegan'' \<in> set dr \<or> ''vegetarian'' \<in> set dr" and "150 < p"
  shows "''difficult_target'' \<in> type ` set (warns (check_difficult_target dr p a))"
  using assms by (auto simp: check_difficult_target_def)


lemma compile_results_warnings:
  "warnings (compile_results a) =
     (if errs a \<noteq> [] then None else if warns a \<noteq> [] then Some (warns a) else None)"
  by (simp add: compile_results_def Let_def)


subsection \<open>C3: a high protein target on a vegan or vegetarian diet\<close>

text \<open>
  Claim C3 says that vegan or vegetarian restrictions with \<open>target_protein_g > 150\<close>
  always give a warning of type "difficult_target", whatever the other numeric targets.
  That fails: the check of line 179 is inside the block of line 143, which runs only when
  the four targets all count as true. A vegan with a protein target of 200 g and no
  other target gets a success without warnings.
\<close>

theorem difficult_target_counterexample:
  "''vegan'' \<in> set (lowered (Some [''vegan''])) \<and> (150::real) < 200
   \<and> validate_consultation_data (Some [''vegan'']) None None None (Some 200) None None None None =
       Inr \<lparr> status = ''success'', valid = True, errors = None, error_count = None,
             suggested_resolution = None, warnings = None, warning_count = None,
             suggestions = Some [''User is vegan - automatically including vegetarian as well since vegan is more restrictive''],
             message = [Lit ''All data is consistent - no contradictions found''] \<rparr>"
  by (simp add: validator_defs)

text \<open>
  Claim C3 as amended. When the four numeric targets are all present and not zero, the
  case-folded restrictions contain "vegan" or "vegetarian" and \<open>target_protein_g > 150\<close>,
  a warning of type "difficult_target" is accumulated, whatever the values of the other
  three targets, the weight and the goal. The result lists it under \<open>warnings\<close> with
  status "warning" when no error finding was accumulated; otherwise the result is the
  error dictionary, which has no warnings.
\<close>

theorem difficult_target_warning:
  assumes "c \<noteq> 0" "f \<noteq> 0" "cb \<noteq> 0" and "150 < p"
    and "''vegan'' \<in> set (lowered dr) \<or> ''vegetarian'' \<in> set (lowered dr)"
  shows "\<exists>a r. collect_findings dr fa ff (Some c) (Some p) (Some f) (Some cb) w g = Inr a
     \<and> validate_consultation_data dr fa ff (Some c) (Some p) (Some f) (Some cb) w g = Inr r
     \<and> ''difficult_target'' \<in> type ` set (warns a)
     \<and> (errs a = [] \<longrightarrow>
          status r = ''warning''
          \<and> (\<exists>ws. warnings r = Some ws \<and> ''difficult_target'' \<in> type ` set ws))
     \<and> (errs a \<noteq> [] \<longrightarrow> status r = ''error'' \<and> warnings r = None)"
proof -
  have p: "p \<noteq> 0" using assms(4) by simp
  note c = collect_findings_present [OF assms(1) p assms(2,3), of dr fa ff w g]
  define a0 where "a0 = (case nonzero w of
                     None \<Rightarrow>
                       check_macro_mismatch c p f cb
                         (check_dairy_free (lowered dr) (lowered ff)
                            (check_gluten_free (lowered dr) (lowered ff)
                               (check_vegan (lowered dr) (lowered ff)
                                  (check_vegetarian (lowered dr) (lowered ff)
                                     \<lparr> errs = [], warns = [], suggs = [] \<rparr>))))
                   | Some wk \<Rightarrow>
                       check_protein_range (p / wk)
                         (check_macro_mismatch c p f cb
                            (check_dairy_free (lowered dr) (lowered ff)
                               (check_gluten_free (lowered dr) (lowered ff)
                                  (check_vegan (lowered dr) (lowered ff)
                                     (check_vegetarian (lowered dr) (lowered ff)
                                        \<lparr> errs = [], warns = [], suggs = [] \<rparr>))))))"
  define a where "a = check_counts (lowered dr) (lowered fa)
            (check_goal g (Some c) w (check_difficult_target (lowered dr) p a0))"
  have ca: "collect_findings dr fa ff (Some c) (Some p) (Some f) (Some cb) w g = Inr a"
    unfolding a_def a0_def by (rule c)
  have "''difficult_target'' \<in> type ` set (warns (check_difficult_target (lowered dr) p a0))"
    using assms(5,4) by (rule check_difficult_target_fires)
  then have d: "''difficult_target'' \<in> type ` set (warns a)"
    unfolding a_def using check_goal_warns_mono check_counts_warns_mono by blast
  then have ne: "warns a \<noteq> []" by auto
  show ?thesis
    using ca validate_collect [OF ca] d ne
    by (auto simp: compile_results_status compile_results_warnings)
qed

text \<open>
  A vegan with 2000 kcal, 200 g protein, 60 g fat and 165 g carbohydrates; and the same
  vegan with cheese as a favourite, where the warning is accumulated and the result is
  the error.
\<close>

theorem difficult_target_warning_witness:
  "(2000::real) \<noteq> 0 \<and> (60::real) \<noteq> 0 \<and> (165::real) \<noteq> 0 \<and> (150::real) < 200
   \<and> ''vegan'' \<in> set (lowered (Some [''Vegan'']))
   \<and> (\<exists>r ws. validate_consultation_data (Some [''Vegan'']) None None
               (Some 2000) (Some 200) (Some 60) (Some 165) None None = Inr r
          \<and> status r = ''warning'' \<and> warnings r = Some ws
          \<and> ''difficult_target'' \<in> type ` set ws)
   \<and> (\<exists>a r. collect_findings (Some [''Vegan'']) None (Some [''Cheese''])
               (Some 2000) (Some 200) (Some 60) (Some 165) None None = Inr a
          \<and> validate_consultation_data (Some [''Vegan'']) None (Some [''Cheese''])
               (Some 2000) (Some 200) (Some 60) (Some 165) None None = Inr r
          \<and> ''difficult_target'' \<in> type ` set (warns a)
          \<and> status r = ''error'' \<and> warnings r = None)"
proof -
  have h: "(2000::real) \<noteq> 0" "(60::real) \<noteq> 0" "(165::real) \<noteq> 0" "(150::real) < 200" by simp_all
  have v: "''vegan'' \<in> set (lowered (Some [''Vegan'']))"
    by (simp add: lowered_def lower_def lower_char_def)
  have e: "\<exists>a. collect_findings (Some [''Vegan'']) None None
               (Some 2000) (Some 200) (Some 60) (Some 165) None None = Inr a \<and> errs a = []"
    by (simp add: validator_defs)
  have e2: "\<exists>a. collect_findings (Some [''Vegan'']) None (Some [''Cheese''])
               (Some 2000) (Some 200) (Some 60) (Some 165) None None = Inr a \<and> errs a \<noteq> []"
    by (simp add: validator_defs)
  from difficult_target_warning [OF h disjI1 [OF v], of None None None None]
  obtain a r where
    ca: "collect_findings (Some [''Vegan'']) None None
               (Some 2000) (Some 200) (Some 60) (Some 165) None None = Inr a" and
    vr: "validate_consultation_data (Some [''Vegan'']) None None
               (Some 2000) (Some 200) (Some 60) (Some 165) None None = Inr r" and
    i: "errs a = [] \<longrightarrow>
          status r = ''warning''
          \<and> (\<exists>ws. warnings r = Some ws \<and> ''difficult_target'' \<in> type ` set ws)"
    by blast
  from e ca have "errs a = []" by auto
  with i vr
  have 1: "\<exists>r ws. validate_consultation_data (Some [''Vegan'']) None None
               (Some 2000) (Some 200) (Some 60) (Some 165) None None = Inr r
          \<and> status r = ''warning'' \<and> warnings r = Some ws
          \<and> ''difficult_target'' \<in> type ` set ws"
    by blast
  from difficult_target_warning [OF h disjI1 [OF v], of None "Some [''Cheese'']" None None]
  obtain a' r' where
    ca': "collect_findings (Some [''Vegan'']) None (Some [''Cheese''])
               (Some 2000) (Some 200) (Some 60) (Some 165) None None = Inr a'" and
    vr': "validate_consultation_data (Some [''Vegan'']) None (Some [''Cheese''])
               (Some 2000) (Some 200) (Some 60) (Some 165) None None = Inr r'" and
    d': "''difficult_target'' \<in> type ` set (warns a')" and
    i': "errs a' \<noteq> [] \<longrightarrow> status r' = ''error'' \<and> warnings r' = None"
    by blast
  from e2 ca' have "errs a' \<noteq> []" by auto
  with i' ca' vr' d'
  have 2: "\<exists>a r. collect_findings (Some [''Vegan'']) None (Some [''Cheese''])
               (Some 2000) (Some 200) (Some 60) (Some 165) None None = Inr a
          \<and> validate_consultation_data (Some [''Vegan'']) None (Some [''Cheese''])
               (Some 2000) (Some 200) (Some 60) (Some 165) None None = Inr r
          \<and> ''difficult_target'' \<in> type ` set (warns a)
          \<and> status r = ''error'' \<and> warnings r = None"
    by blast
  from 1 2 h v show ?thesis by blast
qed

subsection \<open>C4: macro calories against the calorie target\<close>




subsection \<open>C7: the pescatarian suggestion\<close>



lemma str_in_Cons: "str_in n hay \<Longrightarrow> str_in n (x # hay)"
  by simp



lemma check_goal_absent [simp]: "check_goal g None w a = a"
  by (simp add: check_goal_def split: option.splits)

lemma check_counts_few:
  "length dr < 4 \<Longrightarrow> length fa < 10 \<Longrightarrow> check_counts dr fa a = a"
  by (simp add: check_counts_def Let_def)










subsection \<open>C10: a zero counts as absent\<close>

lemma check_vegetarian_errs_type:
  "e \<in> set (errs (check_vegetarian dr ff a)) \<Longrightarrow>
   e \<in> set (errs a) \<or> type e = ''dietary_contradiction''"
  by (auto simp: check_vegetarian_def Let_def split: if_splits)

lemma check_vegan_errs_type:
  "e \<in> set (errs (check_vegan dr ff a)) \<Longrightarrow>
   e \<in> set (errs a) \<or> type e = ''dietary_contradiction''"
  by (auto simp: check_vegan_def Let_def split: if_splits)

lemma check_gluten_free_warns_type:
  "x \<in> set (warns (check_gluten_free dr ff a)) \<Longrightarrow>
   x \<in> set (warns a) \<or> type x = ''dietary_warning''"
  by (auto simp: check_gluten_free_def Let_def split: if_splits)

lemma check_dairy_free_warns_type:
  "x \<in> set (warns (check_dairy_free dr ff a)) \<Longrightarrow>
   x \<in> set (warns a) \<or> type x = ''dietary_warning''"
  by (auto simp: check_dairy_free_def Let_def split: if_splits)

lemma check_macro_mismatch_errs_type:
  "e \<in> set (errs (check_macro_mismatch c p f cb a)) \<Longrightarrow>
   e \<in> set (errs a) \<or> type e = ''macro_mismatch''"
  by (auto simp: check_macro_mismatch_def Let_def split: if_splits)

lemma check_protein_range_warns_type:
  "x \<in> set (warns (check_protein_range k a)) \<Longrightarrow>
   x \<in> set (warns a) \<or> type x = ''low_protein'' \<or> type x = ''high_protein''"
  by (auto simp: check_protein_range_def split: if_splits)

lemma check_difficult_target_warns_type:
  "x \<in> set (warns (check_difficult_target dr p a)) \<Longrightarrow>
   x \<in> set (warns a) \<or> type x = ''difficult_target''"
  by (auto simp: check_difficult_target_def split: if_splits)

lemma check_goal_warns_type:
  "x \<in> set (warns (check_goal g tc w a)) \<Longrightarrow>
   x \<in> set (warns a) \<or> type x = ''goal_mismatch''"
  by (auto simp: check_goal_def split: option.splits if_splits)

lemma check_goal_falsy:
  "nonzero tc = None \<or> nonzero w = None \<Longrightarrow> check_goal g tc w a = a"
  by (auto simp: check_goal_def split: option.splits)

lemma check_counts_warns_type:
  "x \<in> set (warns (check_counts dr fa a)) \<Longrightarrow>
   x \<in> set (warns a) \<or> type x = ''too_restrictive'' \<or> type x = ''too_many_avoided_foods''"
  by (auto simp: check_counts_def Let_def split: if_splits)

text \<open>The findings of the four dietary checks, which start from the empty lists.\<close>

lemma dietary_errs_type:
  assumes "e \<in> set (errs (check_dairy_free dr ff (check_gluten_free dr ff
             (check_vegan dr ff (check_vegetarian dr ff \<lparr> errs = [], warns = [], suggs = [] \<rparr>)))))"
  shows "type e = ''dietary_contradiction''"
proof -
  from assms have "e \<in> set (errs (check_vegan dr ff
      (check_vegetarian dr ff \<lparr> errs = [], warns = [], suggs = [] \<rparr>)))"
    by simp
  then show ?thesis
    using check_vegan_errs_type check_vegetarian_errs_type by fastforce
qed

lemma dietary_warns_type:
  assumes "x \<in> set (warns (check_dairy_free dr ff (check_gluten_free dr ff
             (check_vegan dr ff (check_vegetarian dr ff \<lparr> errs = [], warns = [], suggs = [] \<rparr>)))))"
  shows "type x = ''dietary_warning''"
proof -
  from check_dairy_free_warns_type [OF assms]
  show ?thesis
  proof
    assume "x \<in> set (warns (check_gluten_free dr ff
             (check_vegan dr ff (check_vegetarian dr ff \<lparr> errs = [], warns = [], suggs = [] \<rparr>))))"
    from check_gluten_free_warns_type [OF this] show ?thesis by simp
  qed
qed

text \<open>What a call can have found, by the numbers that count as true.\<close>

lemma collect_findings_types:
  assumes "collect_findings dr fa ff tc tp tf tcb w g = Inr a"
  shows "\<forall>e \<in> set (errs a). type e = ''dietary_contradiction''
           \<or> (type e = ''macro_mismatch'' \<and> nonzero tc \<noteq> None \<and> nonzero tp \<noteq> None
                \<and> nonzero tf \<noteq> None \<and> nonzero tcb \<noteq> None)"
    and "\<forall>x \<in> set (warns a). type x = ''dietary_warning'' \<or> type x = ''too_restrictive''
           \<or> type x = ''too_many_avoided_foods''
           \<or> (type x = ''goal_mismatch'' \<and> nonzero tc \<noteq> None \<and> nonzero w \<noteq> None)
           \<or> (type x = ''difficult_target'' \<and> nonzero tc \<noteq> None \<and> nonzero tp \<noteq> None
                \<and> nonzero tf \<noteq> None \<and> nonzero tcb \<noteq> None)
           \<or> ((type x = ''low_protein'' \<or> type x = ''high_protein'') \<and> nonzero tc \<noteq> None
                \<and> nonzero tp \<noteq> None \<and> nonzero tf \<noteq> None \<and> nonzero tcb \<noteq> None
                \<and> nonzero w \<noteq> None)"
proof -
  define a1 where "a1 = check_dairy_free (lowered dr) (lowered ff)
     (check_gluten_free (lowered dr) (lowered ff)
        (check_vegan (lowered dr) (lowered ff)
           (check_vegetarian (lowered dr) (lowered ff) \<lparr> errs = [], warns = [], suggs = [] \<rparr>)))"
  have e1: "\<And>e. e \<in> set (errs a1) \<Longrightarrow> type e = ''dietary_contradiction''"
    unfolding a1_def by (rule dietary_errs_type)
  have w1: "\<And>x. x \<in> set (warns a1) \<Longrightarrow> type x = ''dietary_warning''"
    unfolding a1_def by (rule dietary_warns_type)
  have goal: "\<And>x b. x \<in> set (warns (check_goal g tc w b)) \<Longrightarrow>
      x \<in> set (warns b) \<or> (type x = ''goal_mismatch'' \<and> nonzero tc \<noteq> None \<and> nonzero w \<noteq> None)"
    using check_goal_warns_type check_goal_falsy by metis
  have both:
    "(\<forall>e \<in> set (errs a). type e = ''dietary_contradiction''
           \<or> (type e = ''macro_mismatch'' \<and> nonzero tc \<noteq> None \<and> nonzero tp \<noteq> None
                \<and> nonzero tf \<noteq> None \<and> nonzero tcb \<noteq> None))
     \<and> (\<forall>x \<in> set (warns a). type x = ''dietary_warning'' \<or> type x = ''too_restrictive''
           \<or> type x = ''too_many_avoided_foods''
           \<or> (type x = ''goal_mismatch'' \<and> nonzero tc \<noteq> None \<and> nonzero w \<noteq> None)
           \<or> (type x = ''difficult_target'' \<and> nonzero tc \<noteq> None \<and> nonzero tp \<noteq> None
                \<and> nonzero tf \<noteq> None \<and> nonzero tcb \<noteq> None)
           \<or> ((type x = ''low_protein'' \<or> type x = ''high_protein'') \<and> nonzero tc \<noteq> None
                \<and> nonzero tp \<noteq> None \<and> nonzero tf \<noteq> None \<and> nonzero tcb \<noteq> None
                \<and> nonzero w \<noteq> None))"
  proof (cases rule: check_macro_targets_cases [of tc tp tf tcb])
    case absent
    then have a: "a = check_counts (lowered dr) (lowered fa) (check_goal g tc w a1)"
      using assms by (simp add: collect_findings_def Let_def check_macro_targets_absent a1_def)
    have "\<forall>e \<in> set (errs a). type e = ''dietary_contradiction''"
      using e1 by (simp add: a)
    moreover have "\<forall>x \<in> set (warns a). type x = ''dietary_warning'' \<or> type x = ''too_restrictive''
           \<or> type x = ''too_many_avoided_foods''
           \<or> (type x = ''goal_mismatch'' \<and> nonzero tc \<noteq> None \<and> nonzero w \<noteq> None)"
      unfolding a using check_counts_warns_type goal w1 by blast
    ultimately show ?thesis by blast
  next
    case (present c p f cb)
    define a2 where "a2 = check_macro_mismatch c p f cb a1"
    define a3 where "a3 = (case nonzero w of None \<Rightarrow> a2 | Some wk \<Rightarrow> check_protein_range (p / wk) a2)"
    have a: "a = check_counts (lowered dr) (lowered fa)
                   (check_goal g tc w (check_difficult_target (lowered dr) p a3))"
      unfolding a3_def a2_def a1_def
      using assms present
      by (simp add: collect_findings_def Let_def check_macro_targets_present)
    have nz: "nonzero tc \<noteq> None" "nonzero tp \<noteq> None" "nonzero tf \<noteq> None" "nonzero tcb \<noteq> None"
      using present by simp_all
    have ea: "errs a = errs (check_macro_mismatch c p f cb a1)"
      by (simp add: a a3_def a2_def split: option.splits)
    have E: "\<forall>e \<in> set (errs a). type e = ''dietary_contradiction'' \<or> type e = ''macro_mismatch''"
    proof
      fix e assume "e \<in> set (errs a)"
      then have "e \<in> set (errs (check_macro_mismatch c p f cb a1))"
        by (simp only: ea)
      from check_macro_mismatch_errs_type [OF this]
      show "type e = ''dietary_contradiction'' \<or> type e = ''macro_mismatch''"
        using e1 by blast
    qed
    have w2: "\<And>x. x \<in> set (warns a2) \<Longrightarrow> type x = ''dietary_warning''"
      using w1 by (simp add: a2_def)
    have w3: "\<And>x. x \<in> set (warns a3) \<Longrightarrow> type x = ''dietary_warning''
        \<or> ((type x = ''low_protein'' \<or> type x = ''high_protein'') \<and> nonzero w \<noteq> None)"
    proof (cases "nonzero w")
      case None
      fix x assume "x \<in> set (warns a3)"
      then show "type x = ''dietary_warning''
        \<or> ((type x = ''low_protein'' \<or> type x = ''high_protein'') \<and> nonzero w \<noteq> None)"
        using w2 None by (simp add: a3_def)
    next
      case (Some wk)
      fix x assume "x \<in> set (warns a3)"
      then have "x \<in> set (warns (check_protein_range (p / wk) a2))"
        using Some by (simp add: a3_def)
      from check_protein_range_warns_type [OF this]
      show "type x = ''dietary_warning''
        \<or> ((type x = ''low_protein'' \<or> type x = ''high_protein'') \<and> nonzero w \<noteq> None)"
        using w2 Some by auto
    qed
    have W: "\<forall>x \<in> set (warns a). type x = ''dietary_warning'' \<or> type x = ''too_restrictive''
           \<or> type x = ''too_many_avoided_foods''
           \<or> (type x = ''goal_mismatch'' \<and> nonzero tc \<noteq> None \<and> nonzero w \<noteq> None)
           \<or> type x = ''difficult_target''
           \<or> ((type x = ''low_protein'' \<or> type x = ''high_protein'') \<and> nonzero w \<noteq> None)"
      unfolding a
      using check_counts_warns_type goal check_difficult_target_warns_type w3 by blast
    show ?thesis
      using E W nz by blast
  qed
  show "\<forall>e \<in> set (errs a). type e = ''dietary_contradiction''
           \<or> (type e = ''macro_mismatch'' \<and> nonzero tc \<noteq> None \<and> nonzero tp \<noteq> None
                \<and> nonzero tf \<noteq> None \<and> nonzero tcb \<noteq> None)"
    using both by blast
  show "\<forall>x \<in> set (warns a). type x = ''dietary_warning'' \<or> type x = ''too_restrictive''
           \<or> type x = ''too_many_avoided_foods''
           \<or> (type x = ''goal_mismatch'' \<and> nonzero tc \<noteq> None \<and> nonzero w \<noteq> None)
           \<or> (type x = ''difficult_target'' \<and> nonzero tc \<noteq> None \<and> nonzero tp \<noteq> None
                \<and> nonzero tf \<noteq> None \<and> nonzero tcb \<noteq> None)
           \<or> ((type x = ''low_protein'' \<or> type x = ''high_protein'') \<and> nonzero tc \<noteq> None
                \<and> nonzero tp \<noteq> None \<and> nonzero tf \<noteq> None \<and> nonzero tcb \<noteq> None
                \<and> nonzero w \<noteq> None)"
    using both by blast
qed

text \<open>A zero in the two blocks that test the numbers.\<close>

lemma check_macro_targets_zero:
  "check_macro_targets dr (Some 0) tp tf tcb w a = check_macro_targets dr None tp tf tcb w a"
  "check_macro_targets dr tc (Some 0) tf tcb w a = check_macro_targets dr tc None tf tcb w a"
  "check_macro_targets dr tc tp (Some 0) tcb w a = check_macro_targets dr tc tp None tcb w a"
  "check_macro_targets dr tc tp tf (Some 0) w a = check_macro_targets dr tc tp tf None w a"
  "check_macro_targets dr tc tp tf tcb (Some 0) a = check_macro_targets dr tc tp tf tcb None a"
  by (simp_all add: check_macro_targets_def split: option.splits)

lemma check_goal_zero:
  "check_goal g (Some 0) w a = check_goal g None w a"
  "check_goal g tc (Some 0) a = check_goal g tc None a"
  by (simp_all add: check_goal_def split: option.splits)

text \<open>
  Claim C10. \<open>validate_consultation_data\<close> treats a numeric input that is zero as it
  treats an absent one: the call returns the same result, and it always returns a result,
  the division by \<open>weight_kg\<close> never raising. When one of the four targets is zero, no
  finding of type "macro_mismatch", "low_protein", "high_protein" or "difficult_target"
  is accumulated; when \<open>weight_kg\<close> is zero, none of type "low_protein", "high_protein"
  or "goal_mismatch"; when \<open>target_calories\<close> is zero, none of type "goal_mismatch".
\<close>

theorem zero_counts_as_absent:
  "(\<exists>r. validate_consultation_data dr fa ff tc tp tf tcb w g = Inr r)
   \<and> validate_consultation_data dr fa ff (Some 0) tp tf tcb w g =
       validate_consultation_data dr fa ff None tp tf tcb w g
   \<and> validate_consultation_data dr fa ff tc (Some 0) tf tcb w g =
       validate_consultation_data dr fa ff tc None tf tcb w g
   \<and> validate_consultation_data dr fa ff tc tp (Some 0) tcb w g =
       validate_consultation_data dr fa ff tc tp None tcb w g
   \<and> validate_consultation_data dr fa ff tc tp tf (Some 0) w g =
       validate_consultation_data dr fa ff tc tp tf None w g
   \<and> validate_consultation_data dr fa ff tc tp tf tcb (Some 0) g =
       validate_consultation_data dr fa ff tc tp tf tcb None g
   \<and> (\<forall>a. collect_findings dr fa ff tc tp tf tcb w g = Inr a \<longrightarrow>
         (tc = Some 0 \<or> tp = Some 0 \<or> tf = Some 0 \<or> tcb = Some 0 \<longrightarrow>
            ''macro_mismatch'' \<notin> type ` set (errs a)
            \<and> ''low_protein'' \<notin> type ` set (warns a)
            \<and> ''high_protein'' \<notin> type ` set (warns a)
            \<and> ''difficult_target'' \<notin> type ` set (warns a))
         \<and> (w = Some 0 \<longrightarrow>
               ''low_protein'' \<notin> type ` set (warns a)
               \<and> ''high_protein'' \<notin> type ` set (warns a)
               \<and> ''goal_mismatch'' \<notin> type ` set (warns a))
         \<and> (tc = Some 0 \<longrightarrow> ''goal_mismatch'' \<notin> type ` set (warns a)))"
proof (intro conjI allI impI)
  show "\<exists>r. validate_consultation_data dr fa ff tc tp tf tcb w g = Inr r"
    using collect_findings_Inr [of dr fa ff tc tp tf tcb w g] validate_collect by blast
next
  show "validate_consultation_data dr fa ff (Some 0) tp tf tcb w g =
       validate_consultation_data dr fa ff None tp tf tcb w g"
    unfolding validate_consultation_data_def collect_findings_def check_macro_targets_zero
      check_goal_zero
    by (rule refl)
next
  show "validate_consultation_data dr fa ff tc (Some 0) tf tcb w g =
       validate_consultation_data dr fa ff tc None tf tcb w g"
    unfolding validate_consultation_data_def collect_findings_def check_macro_targets_zero
    by (rule refl)
next
  show "validate_consultation_data dr fa ff tc tp (Some 0) tcb w g =
       validate_consultation_data dr fa ff tc tp None tcb w g"
    unfolding validate_consultation_data_def collect_findings_def check_macro_targets_zero
    by (rule refl)
next
  show "validate_consultation_data dr fa ff tc tp tf (Some 0) w g =
       validate_consultation_data dr fa ff tc tp tf None w g"
    unfolding validate_consultation_data_def collect_findings_def check_macro_targets_zero
    by (rule refl)
next
  show "validate_consultation_data dr fa ff tc tp tf tcb (Some 0) g =
       validate_consultation_data dr fa ff tc tp tf tcb None g"
    unfolding validate_consultation_data_def collect_findings_def check_macro_targets_zero
      check_goal_zero
    by (rule refl)
next
  fix a
  assume a: "collect_findings dr fa ff tc tp tf tcb w g = Inr a"
  note E = collect_findings_types(1) [OF a] and W = collect_findings_types(2) [OF a]
  {
    assume z: "tc = Some 0 \<or> tp = Some 0 \<or> tf = Some 0 \<or> tcb = Some 0"
    then have n: "nonzero tc = None \<or> nonzero tp = None \<or> nonzero tf = None \<or> nonzero tcb = None"
      by auto
    show "''macro_mismatch'' \<notin> type ` set (errs a)" using E n by fastforce
    show "''low_protein'' \<notin> type ` set (warns a)" using W n by fastforce
    show "''high_protein'' \<notin> type ` set (warns a)" using W n by fastforce
    show "''difficult_target'' \<notin> type ` set (warns a)" using W n by fastforce
  }
  {
    assume "w = Some 0"
    then have n: "nonzero w = None" by simp
    show "''low_protein'' \<notin> type ` set (warns a)" using W n by fastforce
    show "''high_protein'' \<notin> type ` set (warns a)" using W n by fastforce
    show "''goal_mismatch'' \<notin> type ` set (warns a)" using W n by fastforce
  }
  {
    assume "tc = Some 0"
    then have n: "nonzero tc = None" by simp
    show "''goal_mismatch'' \<notin> type ` set (warns a)" using W n by fastforce
  }
qed

text \<open>
  A vegan on a weight loss with a calorie target of 0, 200 g protein, 60 g fat, 165 g
  carbohydrates and a weight of 0 kg: the same result as without a calorie target, and
  as without a weight.
\<close>

theorem zero_counts_as_absent_witness:
  "validate_consultation_data (Some [''vegan'']) None None (Some 0) (Some 200) (Some 60)
       (Some 165) (Some 0) (Some ''weight_loss'') =
     validate_consultation_data (Some [''vegan'']) None None None (Some 200) (Some 60)
       (Some 165) (Some 0) (Some ''weight_loss'')
   \<and> validate_consultation_data (Some [''vegan'']) None None (Some 0) (Some 200) (Some 60)
       (Some 165) (Some 0) (Some ''weight_loss'') =
     validate_consultation_data (Some [''vegan'']) None None (Some 0) (Some 200) (Some 60)
       (Some 165) None (Some ''weight_loss'')
   \<and> (\<exists>r. validate_consultation_data (Some [''vegan'']) None None (Some 0) (Some 200)
              (Some 60) (Some 165) (Some 0) (Some ''weight_loss'') = Inr r)
   \<and> (\<exists>a. collect_findings (Some [''vegan'']) None None (Some 0) (Some 200)
              (Some 60) (Some 165) (Some 0) (Some ''weight_loss'') = Inr a
          \<and> ''macro_mismatch'' \<notin> type ` set (errs a)
          \<and> ''difficult_target'' \<notin> type ` set (warns a)
          \<and> ''low_protein'' \<notin> type ` set (warns a)
          \<and> ''high_protein'' \<notin> type ` set (warns a)
          \<and> ''goal_mismatch'' \<notin> type ` set (warns a))"
proof -
  obtain a where a: "collect_findings (Some [''vegan'']) None None (Some 0) (Some 200)
              (Some 60) (Some 165) (Some 0) (Some ''weight_loss'') = Inr a"
    using collect_findings_Inr by blast
  note T = zero_counts_as_absent [of "Some [''vegan'']" None None "Some 0" "Some 200" "Some 60"
      "Some 165" "Some 0" "Some ''weight_loss''"]
  note T7 = T [THEN conjunct2, THEN conjunct2, THEN conjunct2, THEN conjunct2, THEN conjunct2,
      THEN conjunct2, THEN spec, THEN mp, OF a]
  have z: "Some (0::real) = Some 0 \<or> Some (200::real) = Some 0 \<or> Some (60::real) = Some 0
      \<or> Some (165::real) = Some 0"
    by simp
  have f: "''macro_mismatch'' \<notin> type ` set (errs a)
          \<and> ''difficult_target'' \<notin> type ` set (warns a)
          \<and> ''low_protein'' \<notin> type ` set (warns a)
          \<and> ''high_protein'' \<notin> type ` set (warns a)
          \<and> ''goal_mismatch'' \<notin> type ` set (warns a)"
    using T7 [THEN conjunct1, THEN mp, OF z] T7 [THEN conjunct2, THEN conjunct1, THEN mp, OF refl]
    by simp
  show ?thesis
  proof (intro conjI)
    show "validate_consultation_data (Some [''vegan'']) None None (Some 0) (Some 200) (Some 60)
       (Some 165) (Some 0) (Some ''weight_loss'') =
     validate_consultation_data (Some [''vegan'']) None None None (Some 200) (Some 60)
       (Some 165) (Some 0) (Some ''weight_loss'')"
      by (rule T [THEN conjunct2, THEN conjunct1])
    show "validate_consultation_data (Some [''vegan'']) None None (Some 0) (Some 200) (Some 60)
       (Some 165) (Some 0) (Some ''weight_loss'') =
     validate_consultation_data (Some [''vegan'']) None None (Some 0) (Some 200) (Some 60)
       (Some 165) None (Some ''weight_loss'')"
      by (rule T [THEN conjunct2, THEN conjunct2, THEN conjunct2, THEN conjunct2, THEN conjunct2,
            THEN conjunct1])
    show "\<exists>r. validate_consultation_data (Some [''vegan'']) None None (Some 0) (Some 200)
              (Some 60) (Some 165) (Some 0) (Some ''weight_loss'') = Inr r"
      by (rule T [THEN conjunct1])
    show "\<exists>a. collect_findings (Some [''vegan'']) None None (Some 0) (Some 200)
              (Some 60) (Some 165) (Some 0) (Some ''weight_loss'') = Inr a
          \<and> ''macro_mismatch'' \<notin> type ` set (errs a)
          \<and> ''difficult_target'' \<notin> type ` set (warns a)
          \<and> ''low_protein'' \<notin> type ` set (warns a)
          \<and> ''high_protein'' \<notin> type ` set (warns a)
          \<and> ''goal_mismatch'' \<notin> type ` set (warns a)"
      using a f by (intro exI [of _ a] conjI) simp_all
  qed
qed

end
